theory Spec2Isabelle
  imports Main
begin

section \<open>Python values used by the provisioning pipeline\<close>

text \<open>
  The worker classes of the application (\<^verbatim>\<open>ProjectWorker\<close>, \<^verbatim>\<open>GitWorker\<close>) are
  sequences of external effects: signals sent to the window, processes started through
  \<^verbatim>\<open>QProcess\<close>, files written, and calls into GitPython. The embedding keeps every
  effect as an event of a trace, in the order the source performs them, and lets an
  environment decide what each external call does.
\<close>

subsection \<open>Strings\<close>

text \<open>\<^verbatim>\<open>str.isspace\<close> on the ASCII range, and \<^verbatim>\<open>str.strip()\<close> with no argument.\<close>

definition py_isspace :: "char \<Rightarrow> bool" where
  "py_isspace c = (of_char c \<in> {9::nat, 10, 11, 12, 13, 28, 29, 30, 31, 32})"

definition strip :: "string \<Rightarrow> string" where
  "strip s = rev (dropWhile py_isspace (rev (dropWhile py_isspace s)))"

text \<open>A triple-quoted literal, given line by line: the lines joined by newlines.\<close>

fun py_lines :: "string list \<Rightarrow> string" where
  "py_lines [] = []"
| "py_lines [l] = l"
| "py_lines (l # ls) = l @ CHR 0x0A # py_lines ls"

text \<open>\<^verbatim>\<open>needle in haystack\<close> for strings.\<close>

fun starts_with :: "string \<Rightarrow> string \<Rightarrow> bool" where
  "starts_with s [] = True"
| "starts_with [] (p # ps) = False"
| "starts_with (c # cs) (p # ps) = (c = p \<and> starts_with cs ps)"

fun contains :: "string \<Rightarrow> string \<Rightarrow> bool" where
  "contains [] needle = (needle = [])"
| "contains (c # cs) needle = (starts_with (c # cs) needle \<or> contains cs needle)"

text \<open>Truthiness of a string and of an optional string, and \<^verbatim>\<open>str()\<close> of the latter.\<close>

definition truthy :: "string \<Rightarrow> bool" where
  "truthy s = (s \<noteq> [])"

fun truthy_opt :: "string option \<Rightarrow> bool" where
  "truthy_opt None = False"
| "truthy_opt (Some s) = truthy s"

fun str_opt :: "string option \<Rightarrow> string" where
  "str_opt None = ''None''"
| "str_opt (Some s) = s"

subsection \<open>JSON values\<close>

text \<open>
  The dictionaries handed to \<^verbatim>\<open>json.dump\<close>. A Python dict keeps insertion order, so an
  object is an association list.
\<close>

datatype json =
  JBool bool
| JInt int
| JStr string
| JArr "json list"
| JObj "(string \<times> json) list"

fun json_get :: "json \<Rightarrow> string \<Rightarrow> json option" where
  "json_get (JObj kvs) k = map_of kvs k"
| "json_get _ k = None"

fun json_keys :: "json \<Rightarrow> string list" where
  "json_keys (JObj kvs) = map fst kvs"
| "json_keys _ = []"

section \<open>Effects, events and the environment\<close>

text \<open>
  What is written to a file: a text, the output of \<^verbatim>\<open>json.dump(obj, f, indent=2)\<close>, or a
  text followed by \<^verbatim>\<open>json.dumps(obj, indent=2)\<close>.
\<close>

datatype content =
  Text string
| JsonDump json
| TextJsonDumps string json

text \<open>A path argument: a plain string, or \<^verbatim>\<open>Path(a) / b\<close>.\<close>

datatype pathlike = Str string | Joined string string

text \<open>Calls into the operating system and into GitPython that can raise.\<close>

datatype action =
  Chdir pathlike
| Mkdir pathlike
| Makedirs string
| WriteFile string content
| GitInit
| GitIndexAdd "string list"
| GitIndexCommit string

text \<open>
  The trace of a run. The three signals of \<^verbatim>\<open>ProjectWorker\<close> are events; an action is
  recorded with the message of the exception it raised, if any; a process is recorded
  when it is started, with its command, and again when \<^verbatim>\<open>run_process\<close> returns, with the
  command and the value returned.
\<close>

datatype event =
  Progress int string
| TerminalOutput string string
| Finished bool string
| Effect action "string option"
| Started "string list"
| Process "string list" bool

subsection \<open>QProcess\<close>

text \<open>
  \<^verbatim>\<open>QProcess\<close> belongs to Qt, not to the repository. The members that \<^verbatim>\<open>run_process\<close>
  calls are modelled as Qt documents them: \<^verbatim>\<open>start\<close> clears the exit code,
  \<^verbatim>\<open>waitForFinished(msecs)\<close> blocks until the process has finished or until \<^verbatim>\<open>msecs\<close>
  milliseconds have passed (its default is 30000), and \<^verbatim>\<open>exitCode()\<close> returns the exit
  code of the last process that finished. What the external program does is its
  behaviour: it cannot be launched (the number is the exit code the object holds
  afterwards, which depends on the platform), it exits with a code after some
  milliseconds, or it never exits.
\<close>

datatype proc_behaviour =
  FailsToStart int
| ExitsAfter nat int
| NeverExits

record QProcess =
  exitCode :: int

definition QProcess_new :: QProcess where
  "QProcess_new = \<lparr>exitCode = 0\<rparr>"

definition start :: "QProcess \<Rightarrow> QProcess" where
  "start q = q\<lparr>exitCode := 0\<rparr>"

fun waitForFinished :: "nat \<Rightarrow> proc_behaviour \<Rightarrow> QProcess \<Rightarrow> bool \<times> QProcess" where
  "waitForFinished msecs (FailsToStart c) q = (False, q\<lparr>exitCode := c\<rparr>)"
| "waitForFinished msecs (ExitsAfter t c) q =
     (if t \<le> msecs then (True, q\<lparr>exitCode := c\<rparr>) else (False, q))"
| "waitForFinished msecs NeverExits q = (False, q)"

text \<open>
  The environment: for a command, the behaviour of the program and the chunks of output
  that \<^verbatim>\<open>handle_output\<close> reads while \<^verbatim>\<open>run_process\<close> waits, each chunk being the text
  that \<^verbatim>\<open>.decode()\<close> gives for its bytes, or \<open>None\<close> when the bytes are not valid UTF-8
  and \<^verbatim>\<open>.decode()\<close> raises; for an action, the message of the exception it raises, if it
  raises. Both may depend on everything that happened before.
\<close>

record env =
  spawn :: "event list \<Rightarrow> string list \<Rightarrow> proc_behaviour \<times> string option list"
  raises :: "event list \<Rightarrow> action \<Rightarrow> string option"

subsection \<open>Computations\<close>

text \<open>
  How a method body can fail to return: an exception is raised, with its message, or the
  interpreter is terminated. The second happens when a slot connected to a Qt signal
  raises: PyQt5 prints the traceback and aborts the program, and no handler of the
  worker runs.
\<close>

datatype failure = Raised string | Aborted

text \<open>
  A method body: from the environment and the events that happened before it, to the
  value returned or the failure (\<open>Inl\<close>), and the events it adds, in order.
\<close>

type_synonym 'a io = "env \<Rightarrow> event list \<Rightarrow> (failure + 'a) \<times> event list"

definition return :: "'a \<Rightarrow> 'a io" where
  "return x = (\<lambda>e h. (Inr x, []))"

definition raise :: "string \<Rightarrow> 'a io" where
  "raise msg = (\<lambda>e h. (Inl (Raised msg), []))"

definition bind :: "'a io \<Rightarrow> ('a \<Rightarrow> 'b io) \<Rightarrow> 'b io" where
  "bind m f = (\<lambda>e h. case m e h of
                 (Inl failed, new) \<Rightarrow> (Inl failed, new)
               | (Inr x, new) \<Rightarrow> (case f x e (h @ new) of (r, new') \<Rightarrow> (r, new @ new')))"

fun seq :: "unit io list \<Rightarrow> unit io" where
  "seq [] = return ()"
| "seq (m # ms) = bind m (\<lambda>_. seq ms)"

declare seq.simps [simp del]

definition if_then :: "bool \<Rightarrow> unit io \<Rightarrow> unit io" where
  "if_then b m = (if b then m else return ())"

text \<open>\<^verbatim>\<open>try: ... except Exception as e: ...\<close>; a terminated interpreter runs no handler.\<close>

definition try_except :: "unit io \<Rightarrow> (string \<Rightarrow> unit io) \<Rightarrow> unit io" where
  "try_except m handler = (\<lambda>e h. case m e h of
                 (Inl (Raised msg), new) \<Rightarrow>
                   (case handler msg e (h @ new) of (r, new') \<Rightarrow> (r, new @ new'))
               | (Inl Aborted, new) \<Rightarrow> (Inl Aborted, new)
               | (Inr x, new) \<Rightarrow> (Inr x, new))"

definition emit :: "event \<Rightarrow> unit io" where
  "emit ev = (\<lambda>e h. (Inr (), [ev]))"

definition perform :: "action \<Rightarrow> unit io" where
  "perform a = (\<lambda>e h. case raises e h a of
                 None \<Rightarrow> (Inr (), [Effect a None])
               | Some msg \<Rightarrow> (Inl (Raised msg), [Effect a (Some msg)]))"

section \<open>The project worker\<close>

record ProjectConfig =
  name :: string
  template :: string
  dependencies :: "string list"
  dev_dependencies :: "string list"
  git_integration :: bool
  testing :: bool
  test_framework :: "string option"
  styling_solution :: string
  typescript :: bool
  eslint :: bool
  prettier :: bool
  package_manager :: string
  router :: bool
  state_management :: "string option"
  ci_cd :: bool
  deployment_platform :: "string option"

record ProjectWorker =
  config :: ProjectConfig
  npm_path :: string
  npx_path :: string
  project_directory :: string

definition emit_log :: "string \<Rightarrow> string \<Rightarrow> unit io" where
  "emit_log message level = emit (TerminalOutput message level)"

text \<open>
  \<^verbatim>\<open>handle_output\<close>, the slot that \<^verbatim>\<open>run_process\<close> connects to the output of the process:
  each chunk is decoded and sent on as a line of the terminal. It has no handler, so the
  first chunk that does not decode ends the program. The result is the texts sent on and
  whether every chunk was decoded.
\<close>

fun handle_output :: "string option list \<Rightarrow> string list \<times> bool" where
  "handle_output [] = ([], True)"
| "handle_output (None # chunks) = ([], False)"
| "handle_output (Some out # chunks) =
     (case handle_output chunks of (outs, decoded) \<Rightarrow> (out # outs, decoded))"

text \<open>
  \<^verbatim>\<open>run_process\<close>: a new \<^verbatim>\<open>QProcess\<close> is started on the command, \<^verbatim>\<open>waitForFinished()\<close>
  is called with its default of 30000 milliseconds, during which the output is handled,
  and the result is \<^verbatim>\<open>process.exitCode() == 0\<close>. Both branches on \<^verbatim>\<open>shell\<close> start the
  process the same way.
\<close>

definition process_success :: "proc_behaviour \<Rightarrow> bool" where
  "process_success b = (exitCode (snd (waitForFinished 30000 b (start QProcess_new))) = 0)"

definition run_process :: "string list \<Rightarrow> bool io" where
  "run_process command = (\<lambda>e h.
     let (b, chunks) = spawn e h command;
         (outs, decoded) = handle_output chunks;
         ok = process_success b
     in if decoded
        then (Inr ok, Started command # map (\<lambda>out. TerminalOutput out ''INFO'') outs
                        @ [Process command ok])
        else (Inl Aborted, Started command # map (\<lambda>out. TerminalOutput out ''INFO'') outs))"

text \<open>\<^verbatim>\<open>success = self.run_process(cmd)\<close> followed by \<^verbatim>\<open>if not success: raise Exception(msg)\<close>.\<close>

definition run_or_raise :: "string list \<Rightarrow> string \<Rightarrow> unit io" where
  "run_or_raise command msg = bind (run_process command) (\<lambda>success.
     if \<not> success then raise msg else return ())"

subsection \<open>The texts written by the feature stages\<close>

definition css_content :: string where
  \<open>css_content = py_lines
    ['''',
     ''@tailwind base;'',
     ''@tailwind components;'',
     ''@tailwind utilities;'',
     ''        '']\<close>

definition theme_ts :: string where
  \<open>theme_ts = py_lines
    ['''',
     ''export const theme = {'',
     ''    colors: {'',
     ''        primary: \'#2563eb\','',
     ''        secondary: \'#4b5563\','',
     ''        background: \'#ffffff\','',
     ''        surface: \'#f3f4f6\','',
     ''        text: \'#1f2937\','',
     ''        accent: \'#3b82f6\','',
     ''    },'',
     ''    breakpoints: {'',
     ''        sm: \'640px\','',
     ''        md: \'768px\','',
     ''        lg: \'1024px\','',
     ''        xl: \'1280px\','',
     ''    },'',
     ''    spacing: {'',
     ''        xs: \'0.25rem\','',
     ''        sm: \'0.5rem\','',
     ''        md: \'1rem\','',
     ''        lg: \'1.5rem\','',
     ''        xl: \'2rem\','',
     ''    },'',
     ''    typography: {'',
     ''        h1: \'2.25rem\','',
     ''        h2: \'1.875rem\','',
     ''        h3: \'1.5rem\','',
     ''        body: \'1rem\','',
     ''        small: \'0.875rem\','',
     ''    },'',
     ''}'',
     ''        '']\<close>

definition example_module :: string where
  \<open>example_module = py_lines
    ['''',
     ''.container {'',
     ''    padding: 2rem;'',
     ''}'',
     '''',
     ''.title {'',
     ''    font-size: 2rem;'',
     ''    font-weight: bold;'',
     ''    color: #2563eb;'',
     ''}'',
     '''',
     ''.button {'',
     ''    padding: 0.5rem 1rem;'',
     ''    background-color: #2563eb;'',
     ''    color: white;'',
     ''    border-radius: 0.375rem;'',
     ''    transition: background-color 0.2s;'',
     ''}'',
     '''',
     ''.button:hover {'',
     ''    background-color: #1d4ed8;'',
     ''}'',
     ''        '']\<close>

definition test_setup :: string where
  \<open>test_setup = py_lines
    ['''',
     ''import \'@testing-library/jest-dom'' @ [CHR 0x27],
     ''import { expect, afterEach } from \'vitest'' @ [CHR 0x27],
     ''import { cleanup } from \'@testing-library/react'' @ [CHR 0x27],
     '''',
     ''afterEach(() => {'',
     ''    cleanup()'',
     ''})'',
     ''            '']\<close>

definition example_test :: string where
  \<open>example_test = py_lines
    ['''',
     ''import { render, screen } from \'@testing-library/react'' @ [CHR 0x27],
     ''import { describe, it, expect } from \'vitest'' @ [CHR 0x27],
     ''import App from \'../App'' @ [CHR 0x27],
     '''',
     ''describe(\'App\', () => {'',
     ''    it(\'renders hello world\', () => {'',
     ''        render(<App />)'',
     ''        expect(screen.getByText(/hello/i)).toBeInTheDocument()'',
     ''    })'',
     ''})'',
     ''            '']\<close>

definition router_config :: string where
  \<open>router_config = py_lines
    ['''',
     ''import { createBrowserRouter } from \'react-router-dom'' @ [CHR 0x27],
     ''import App from \'../App'' @ [CHR 0x27],
     ''import Home from \'../pages/Home'' @ [CHR 0x27],
     ''import About from \'../pages/About'' @ [CHR 0x27],
     ''import NotFound from \'../pages/NotFound'' @ [CHR 0x27],
     '''',
     ''export const router = createBrowserRouter(['',
     ''    {'',
     ''        path: \'/\','',
     ''        element: <App />,'',
     ''        children: ['',
     ''            {'',
     ''                index: true,'',
     ''                element: <Home />'',
     ''            },'',
     ''            {'',
     ''                path: \'about\','',
     ''                element: <About />'',
     ''            },'',
     ''            {'',
     ''                path: \'*\','',
     ''                element: <NotFound />'',
     ''            }'',
     ''        ]'',
     ''    }'',
     ''])'',
     ''        '']\<close>

definition page_Home :: string where
  \<open>page_Home = py_lines
    ['''',
     ''export default function Home() {'',
     ''    return ('',
     ''        <div>'',
     ''            <h1>Home Page</h1>'',
     ''            <p>Welcome to our app!</p>'',
     ''        </div>'',
     ''    )'',
     ''}'',
     ''            '']\<close>

definition page_About :: string where
  \<open>page_About = py_lines
    ['''',
     ''export default function About() {'',
     ''    return ('',
     ''        <div>'',
     ''            <h1>About Page</h1>'',
     ''            <p>Learn more about us.</p>'',
     ''        </div>'',
     ''    )'',
     ''}'',
     ''            '']\<close>

definition page_NotFound :: string where
  \<open>page_NotFound = py_lines
    ['''',
     ''export default function NotFound() {'',
     ''    return ('',
     ''        <div>'',
     ''            <h1>404</h1>'',
     ''            <p>Page not found.</p>'',
     ''        </div>'',
     ''    )'',
     ''}'',
     ''            '']\<close>

definition store_config :: string where
  \<open>store_config = py_lines
    ['''',
     ''import { configureStore } from \'@reduxjs/toolkit'' @ [CHR 0x27],
     ''import counterReducer from \'./slices/counterSlice'' @ [CHR 0x27],
     '''',
     ''export const store = configureStore({'',
     ''    reducer: {'',
     ''        counter: counterReducer'',
     ''    }'',
     ''})'',
     '''',
     ''export type RootState = ReturnType<typeof store.getState>'',
     ''export type AppDispatch = typeof store.dispatch'',
     ''        '']\<close>

definition counter_slice :: string where
  \<open>counter_slice = py_lines
    ['''',
     ''import { createSlice, PayloadAction } from \'@reduxjs/toolkit'' @ [CHR 0x27],
     '''',
     ''interface CounterState {'',
     ''    value: number'',
     ''}'',
     '''',
     ''const initialState: CounterState = {'',
     ''    value: 0'',
     ''}'',
     '''',
     ''export const counterSlice = createSlice({'',
     ''    name: \'counter\','',
     ''    initialState,'',
     ''    reducers: {'',
     ''        increment: (state) => {'',
     ''            state.value += 1'',
     ''        },'',
     ''        decrement: (state) => {'',
     ''            state.value -= 1'',
     ''        },'',
     ''        incrementByAmount: (state, action: PayloadAction<number>) => {'',
     ''            state.value += action.payload'',
     ''        }'',
     ''    }'',
     ''})'',
     '''',
     ''export const { increment, decrement, incrementByAmount } = counterSlice.actions'',
     ''export default counterSlice.reducer'',
     ''        '']\<close>

definition zustand_store :: string where
  \<open>zustand_store = py_lines
    ['''',
     ''import create from \'zustand'' @ [CHR 0x27],
     '''',
     ''interface CounterState {'',
     ''    count: number'',
     ''    increment: () => void'',
     ''    decrement: () => void'',
     ''    reset: () => void'',
     ''}'',
     '''',
     ''export const useStore = create<CounterState>((set) => ({'',
     ''    count: 0,'',
     ''    increment: () => set((state) => ({ count: state.count + 1 })),'',
     ''    decrement: () => set((state) => ({ count: state.count - 1 })),'',
     ''    reset: () => set({ count: 0 })'',
     ''}))'',
     ''        '']\<close>

definition workflow :: string where
  \<open>workflow = py_lines
    ['''',
     ''name: CI/CD'',
     '''',
     ''on:'',
     ''  push:'',
     ''    branches: [ main ]'',
     ''  pull_request:'',
     ''    branches: [ main ]'',
     '''',
     ''jobs:'',
     ''  build:'',
     ''    runs-on: ubuntu-latest'',
     '''',
     ''    strategy:'',
     ''      matrix:'',
     ''        node-version: [16.x, 18.x]'',
     '''',
     ''    steps:'',
     ''    - uses: actions/checkout@v2'',
     ''    '',
     ''    - name: Use Node.js ${{ matrix.node-version }}'',
     ''      uses: actions/setup-node@v2'',
     ''      with:'',
     ''        node-version: ${{ matrix.node-version }}'',
     ''        '',
     ''    - name: Install dependencies'',
     ''      run: npm ci'',
     ''      '',
     ''    - name: Run tests'',
     ''      run: npm test'',
     ''      '',
     ''    - name: Build'',
     ''      run: npm run build'',
     ''      '',
     ''    - name: Lint'',
     ''      run: npm run lint'',
     ''        '']\<close>

definition vercel_config :: string where
  \<open>vercel_config = py_lines
    ['''',
     ''{'',
     ''    "version": 2,'',
     ''    "builds": ['',
     ''        {'',
     ''            "src": "package.json",'',
     ''            "use": "@vercel/static-build",'',
     ''            "config": {'',
     ''                "distDir": "dist"'',
     ''            }'',
     ''        }'',
     ''    ],'',
     ''    "routes": ['',
     ''        {'',
     ''            "src": "/(.*)",'',
     ''            "dest": "/index.html"'',
     ''        }'',
     ''    ]'',
     ''}'',
     ''        '']\<close>

definition gitignore :: string where
  \<open>gitignore = py_lines
    ['''',
     ''# Dependencies'',
     ''node_modules'',
     ''.pnp'',
     ''.pnp.js'',
     '''',
     ''# Testing'',
     ''coverage'',
     '''',
     ''# Production'',
     ''build'',
     ''dist'',
     '''',
     ''# Misc'',
     ''.DS_Store'',
     ''.env.local'',
     ''.env.development.local'',
     ''.env.test.local'',
     ''.env.production.local'',
     '''',
     ''# Debug'',
     ''npm-debug.log*'',
     ''yarn-debug.log*'',
     ''yarn-error.log*'',
     '''',
     ''# Editor'',
     ''.idea'',
     ''.vscode'',
     ''*.sublime-workspace'',
     ''*.sublime-project'',
     '''',
     ''# TypeScript'',
     ''*.tsbuildinfo'',
     '''',
     ''# Optional npm cache directory'',
     ''.npm'',
     '''',
     ''# Optional eslint cache'',
     ''.eslintcache'',
     '''',
     ''# Vercel'',
     ''.vercel'',
     ''            '']\<close>
subsection \<open>Feature stages\<close>

definition ts_config :: json where
  "ts_config = JObj
     [(''compilerOptions'', JObj
        [(''target'', JStr ''ESNext''),
         (''lib'', JArr [JStr ''DOM'', JStr ''DOM.Iterable'', JStr ''ESNext'']),
         (''allowJs'', JBool False),
         (''skipLibCheck'', JBool True),
         (''esModuleInterop'', JBool True),
         (''allowSyntheticDefaultImports'', JBool True),
         (''strict'', JBool True),
         (''forceConsistentCasingInFileNames'', JBool True),
         (''module'', JStr ''ESNext''),
         (''moduleResolution'', JStr ''Node''),
         (''resolveJsonModule'', JBool True),
         (''isolatedModules'', JBool True),
         (''noEmit'', JBool True),
         (''jsx'', JStr ''react-jsx''),
         (''baseUrl'', JStr ''.''),
         (''paths'', JObj [(''@/*'', JArr [JStr ''./src/*''])])]),
      (''include'', JArr [JStr ''src'']),
      (''references'', JArr [JObj [(''path'', JStr ''./tsconfig.node.json'')]])]"

definition setup_typescript :: "ProjectWorker \<Rightarrow> unit io" where
  "setup_typescript w = seq
     [emit_log ''Setting up TypeScript...'' ''INFO'',
      perform (WriteFile ''tsconfig.json'' (JsonDump ts_config))]"

definition tailwind_config :: json where
  "tailwind_config = JObj
     [(''content'', JArr [JStr ''./index.html'', JStr ''./src/**/*.{js,ts,jsx,tsx}'']),
      (''theme'', JObj [(''extend'', JObj [])]),
      (''plugins'', JArr [])]"

definition setup_tailwind :: "ProjectWorker \<Rightarrow> unit io" where
  "setup_tailwind w = seq
     [run_or_raise ([npm_path w, ''install'', ''-D''] @ [''tailwindcss'', ''postcss'', ''autoprefixer''])
        ''Failed to install Tailwind CSS'',
      run_or_raise [npx_path w, ''tailwindcss'', ''init'', ''-p'']
        ''Failed to initialize Tailwind CSS'',
      perform (WriteFile ''tailwind.config.js'' (TextJsonDumps ''module.exports = '' tailwind_config)),
      perform (WriteFile ''src/index.css'' (Text (strip css_content)))]"

definition setup_styled_components :: "ProjectWorker \<Rightarrow> unit io" where
  "setup_styled_components w =
     (let deps = [''styled-components''] @
                 (if typescript (config w) then [''@types/styled-components''] else [])
      in seq
        [run_or_raise ([npm_path w, ''install''] @ deps) ''Failed to install Styled Components'',
         perform (Makedirs ''src/styles''),
         perform (WriteFile ''src/styles/theme.ts'' (Text (strip theme_ts)))])"

definition setup_css_modules :: "ProjectWorker \<Rightarrow> unit io" where
  "setup_css_modules w = seq
     [perform (Makedirs ''src/styles''),
      perform (WriteFile ''src/styles/Example.module.css'' (Text (strip example_module)))]"

definition setup_styling :: "ProjectWorker \<Rightarrow> unit io" where
  "setup_styling w = seq
     [emit_log (''Setting up '' @ styling_solution (config w) @ ''...'') ''INFO'',
      if styling_solution (config w) = ''Tailwind CSS'' then setup_tailwind w
      else if styling_solution (config w) = ''Styled Components'' then setup_styled_components w
      else if styling_solution (config w) = ''CSS Modules'' then setup_css_modules w
      else return ()]"

definition eslint_config :: json where
  "eslint_config = JObj
     [(''env'', JObj [(''browser'', JBool True), (''es2021'', JBool True)]),
      (''extends'', JArr
        [JStr ''eslint:recommended'',
         JStr ''plugin:react/recommended'',
         JStr ''plugin:react-hooks/recommended'',
         JStr ''plugin:jsx-a11y/recommended'',
         JStr ''plugin:@typescript-eslint/recommended'']),
      (''parser'', JStr ''@typescript-eslint/parser''),
      (''parserOptions'', JObj
        [(''ecmaFeatures'', JObj [(''jsx'', JBool True)]),
         (''ecmaVersion'', JInt 12),
         (''sourceType'', JStr ''module'')]),
      (''plugins'', JArr
        [JStr ''react'', JStr ''react-hooks'', JStr ''jsx-a11y'', JStr ''@typescript-eslint'']),
      (''rules'', JObj
        [(''react/react-in-jsx-scope'', JStr ''off''),
         (''react/prop-types'', JStr ''off'')]),
      (''settings'', JObj [(''react'', JObj [(''version'', JStr ''detect'')])])]"

definition prettier_config :: json where
  "prettier_config = JObj
     [(''semi'', JBool True),
      (''trailingComma'', JStr ''es5''),
      (''singleQuote'', JBool True),
      (''printWidth'', JInt 80),
      (''tabWidth'', JInt 2),
      (''useTabs'', JBool False),
      (''bracketSpacing'', JBool True),
      (''jsxBracketSameLine'', JBool False)]"

definition setup_linting :: "ProjectWorker \<Rightarrow> unit io" where
  "setup_linting w = seq
     [if_then (eslint (config w)) (seq
        [emit_log ''Setting up ESLint...'' ''INFO'',
         run_or_raise ([npm_path w, ''install'', ''-D''] @
             [''eslint'', ''eslint-plugin-react'', ''eslint-plugin-react-hooks'',
              ''eslint-plugin-jsx-a11y'', ''@typescript-eslint/parser'',
              ''@typescript-eslint/eslint-plugin''])
           ''Failed to install ESLint'',
         perform (WriteFile ''.eslintrc.json'' (JsonDump eslint_config))]),
      if_then (prettier (config w)) (seq
        [emit_log ''Setting up Prettier...'' ''INFO'',
         run_or_raise [npm_path w, ''install'', ''-D'', ''prettier''] ''Failed to install Prettier'',
         perform (WriteFile ''.prettierrc'' (JsonDump prettier_config))])]"

definition setup_features :: "ProjectWorker \<Rightarrow> unit io" where
  "setup_features w = try_except
     (seq
       [if_then (typescript (config w)) (setup_typescript w),
        if_then (truthy (styling_solution (config w))) (setup_styling w),
        if_then (eslint (config w) \<or> prettier (config w)) (setup_linting w)])
     (\<lambda>msg. seq [emit_log (''Error setting up features: '' @ msg) ''ERROR'', raise msg])"

definition testing_deps :: "ProjectWorker \<Rightarrow> string list" where
  "testing_deps w =
     (if test_framework (config w) = Some ''vitest''
      then [''vitest'', ''@testing-library/react'', ''@testing-library/user-event'',
            ''@testing-library/jest-dom'', ''jsdom'']
      else [''jest'', ''@testing-library/react'', ''@testing-library/user-event'',
            ''@testing-library/jest-dom'', ''@types/jest''])"

definition setup_testing :: "ProjectWorker \<Rightarrow> unit io" where
  "setup_testing w = seq
     [emit_log ''Setting up testing configuration...'' ''INFO'',
      run_or_raise ([npm_path w, ''install'', ''-D''] @ testing_deps w)
        ''Failed to install testing dependencies'',
      if_then (test_framework (config w) = Some ''vitest'') (seq
        [perform (Makedirs ''src/test''),
         perform (WriteFile ''src/test/setup.ts'' (Text (strip test_setup))),
         perform (WriteFile ''src/test/App.test.tsx'' (Text (strip example_test)))])]"

definition pages :: "(string \<times> string) list" where
  "pages = [(''Home'', page_Home), (''About'', page_About), (''NotFound'', page_NotFound)]"

definition setup_router :: "ProjectWorker \<Rightarrow> unit io" where
  "setup_router w = seq
     [emit_log ''Setting up React Router...'' ''INFO'',
      run_or_raise [npm_path w, ''install'', ''react-router-dom''] ''Failed to install React Router'',
      perform (Makedirs ''src/router''),
      perform (WriteFile ''src/router/index.tsx'' (Text (strip router_config))),
      perform (Makedirs ''src/pages''),
      seq (map (\<lambda>(name, content).
             perform (WriteFile (''src/pages/'' @ name @ ''.tsx'') (Text (strip content)))) pages)]"

definition setup_redux_toolkit :: "ProjectWorker \<Rightarrow> unit io" where
  "setup_redux_toolkit w = seq
     [run_or_raise ([npm_path w, ''install''] @ [''@reduxjs/toolkit'', ''react-redux''])
        ''Failed to install Redux Toolkit'',
      perform (Makedirs ''src/store''),
      perform (WriteFile ''src/store/index.ts'' (Text (strip store_config))),
      perform (Makedirs ''src/store/slices''),
      perform (WriteFile ''src/store/slices/counterSlice.ts'' (Text (strip counter_slice)))]"

definition setup_zustand :: "ProjectWorker \<Rightarrow> unit io" where
  "setup_zustand w = seq
     [run_or_raise [npm_path w, ''install'', ''zustand''] ''Failed to install Zustand'',
      perform (Makedirs ''src/store''),
      perform (WriteFile ''src/store/index.ts'' (Text (strip zustand_store)))]"

definition setup_state_management :: "ProjectWorker \<Rightarrow> unit io" where
  "setup_state_management w = seq
     [emit_log (''Setting up '' @ str_opt (state_management (config w)) @ ''...'') ''INFO'',
      if state_management (config w) = Some ''Redux Toolkit'' then setup_redux_toolkit w
      else if state_management (config w) = Some ''Zustand'' then setup_zustand w
      else return ()]"

definition setup_vercel_deployment :: "ProjectWorker \<Rightarrow> unit io" where
  "setup_vercel_deployment w =
     perform (WriteFile ''vercel.json'' (Text (strip vercel_config)))"

definition setup_ci_cd :: "ProjectWorker \<Rightarrow> unit io" where
  "setup_ci_cd w = seq
     [emit_log ''Setting up CI/CD configuration...'' ''INFO'',
      if_then (deployment_platform (config w) = Some ''Vercel'') (setup_vercel_deployment w),
      perform (Makedirs ''.github/workflows''),
      perform (WriteFile ''.github/workflows/ci.yml'' (Text (strip workflow)))]"

definition setup_git :: "ProjectWorker \<Rightarrow> unit io" where
  "setup_git w = seq
     [emit_log ''Initializing Git repository...'' ''INFO'',
      try_except
        (seq
          [perform GitInit,
           perform (WriteFile ''.gitignore'' (Text (strip gitignore))),
           perform (GitIndexAdd [''.'']),
           perform (GitIndexCommit ''Initial commit: Project setup''),
           emit_log ''Git repository initialized successfully'' ''SUCCESS''])
        (\<lambda>msg. seq
          [emit_log (''Failed to initialize Git repository: '' @ msg) ''ERROR'', raise msg])]"

subsection \<open>The run\<close>

definition create_cmd :: "ProjectWorker \<Rightarrow> string list" where
  "create_cmd w =
     (let template_suffix = (if typescript (config w) then ''-ts'' else '''');
          template' = template (config w) @ template_suffix
      in if template (config w) = ''next''
         then [''create-next-app'',
               name (config w),
               if typescript (config w) then ''--typescript'' else '''',
               if styling_solution (config w) = ''Tailwind CSS'' then ''--tailwind'' else '''',
               if eslint (config w) then ''--eslint'' else '''',
               ''--src-dir'',
               ''--app'']
         else [npx_path w, ''create-vite@latest'', name (config w), ''--template'', template'])"

definition install_cmd :: "ProjectWorker \<Rightarrow> string list" where
  "install_cmd w = [npm_path w, ''install'']"

definition project_path :: "ProjectWorker \<Rightarrow> pathlike" where
  "project_path w = Joined (project_directory w) (name (config w))"

definition run_body :: "ProjectWorker \<Rightarrow> unit io" where
  "run_body w = seq
     [emit (Progress 0 ''Initializing project...''),
      emit_log ''Starting project creation...'' ''INFO'',
      perform (Chdir (Str (project_directory w))),
      perform (Mkdir (project_path w)),
      emit (Progress 20 ''Creating project structure...''),
      run_or_raise (create_cmd w) ''Failed to create project structure'',
      perform (Chdir (project_path w)),
      emit (Progress 40 ''Installing dependencies...''),
      emit_log ''Installing core dependencies...'' ''INFO'',
      run_or_raise (install_cmd w) ''Failed to install core dependencies'',
      emit (Progress 60 ''Setting up project features...''),
      setup_features w,
      if_then (testing (config w)) (setup_testing w),
      if_then (router (config w)) (setup_router w),
      if_then (truthy_opt (state_management (config w))) (setup_state_management w),
      if_then (ci_cd (config w)) (setup_ci_cd w),
      if_then (git_integration (config w)) (setup_git w),
      emit (Progress 100 ''Project created successfully!''),
      emit_log ''Project setup completed successfully!'' ''SUCCESS'',
      emit (Finished True ''Project created successfully!'')]"

definition run :: "ProjectWorker \<Rightarrow> unit io" where
  "run w = try_except (run_body w)
     (\<lambda>msg. seq [emit_log (''Error: '' @ msg) ''ERROR'', emit (Finished False msg)])"

text \<open>The trace of a whole run, started with nothing before it.\<close>

definition trace_of :: "unit io \<Rightarrow> env \<Rightarrow> event list" where
  "trace_of m e = snd (m e [])"

subsection \<open>Stages of the run\<close>

text \<open>
  The body of \<^verbatim>\<open>run\<close> cut at the stage boundaries of the specification. That the
  flat body is the sequence of these stages is \<open>run_body_stages\<close> below.
\<close>

definition init_stage :: "ProjectWorker \<Rightarrow> unit io" where
  "init_stage w = seq
     [emit (Progress 0 ''Initializing project...''),
      emit_log ''Starting project creation...'' ''INFO'',
      perform (Chdir (Str (project_directory w))),
      perform (Mkdir (project_path w))]"

definition scaffold_stage :: "ProjectWorker \<Rightarrow> unit io" where
  "scaffold_stage w = seq
     [emit (Progress 20 ''Creating project structure...''),
      run_or_raise (create_cmd w) ''Failed to create project structure'']"

definition install_stage :: "ProjectWorker \<Rightarrow> unit io" where
  "install_stage w = seq
     [perform (Chdir (project_path w)),
      emit (Progress 40 ''Installing dependencies...''),
      emit_log ''Installing core dependencies...'' ''INFO'',
      run_or_raise (install_cmd w) ''Failed to install core dependencies'']"

definition feature_configuration :: "ProjectWorker \<Rightarrow> unit io" where
  "feature_configuration w = seq
     [emit (Progress 60 ''Setting up project features...''),
      setup_features w,
      if_then (testing (config w)) (setup_testing w),
      if_then (router (config w)) (setup_router w),
      if_then (truthy_opt (state_management (config w))) (setup_state_management w)]"

definition finalize_stage :: "ProjectWorker \<Rightarrow> unit io" where
  "finalize_stage w = if_then (ci_cd (config w)) (setup_ci_cd w)"

definition version_control_stage :: "ProjectWorker \<Rightarrow> unit io" where
  "version_control_stage w = if_then (git_integration (config w)) (setup_git w)"

definition completion :: "unit io" where
  "completion = seq
     [emit (Progress 100 ''Project created successfully!''),
      emit_log ''Project setup completed successfully!'' ''SUCCESS'',
      emit (Finished True ''Project created successfully!'')]"

text \<open>The command that installs the testing packages.\<close>

definition testing_install_cmd :: "ProjectWorker \<Rightarrow> string list" where
  "testing_install_cmd w = [npm_path w, ''install'', ''-D''] @ testing_deps w"

definition failure_handler :: "string \<Rightarrow> unit io" where
  "failure_handler msg = seq [emit_log (''Error: '' @ msg) ''ERROR'', emit (Finished False msg)]"

subsection \<open>Observations on a trace\<close>

fun write_path :: "event \<Rightarrow> string list" where
  "write_path (Effect (WriteFile p c) r) = [p]"
| "write_path _ = []"

fun written_file :: "event \<Rightarrow> (string \<times> content) list" where
  "written_file (Effect (WriteFile p c) None) = [(p, c)]"
| "written_file _ = []"

fun process_command :: "event \<Rightarrow> string list list" where
  "process_command (Started cmd) = [cmd]"
| "process_command _ = []"

fun finished_signal :: "event \<Rightarrow> (bool \<times> string) list" where
  "finished_signal (Finished ok msg) = [(ok, msg)]"
| "finished_signal _ = []"

text \<open>The paths of the files a run tried to write, and the files it did write.\<close>

definition attempted_writes :: "event list \<Rightarrow> string list" where
  "attempted_writes tr = concat (map write_path tr)"

definition written :: "event list \<Rightarrow> (string \<times> content) list" where
  "written tr = concat (map written_file tr)"

text \<open>The commands started by \<^verbatim>\<open>run_process\<close>, and the \<^verbatim>\<open>finished\<close> signals.\<close>

definition processes :: "event list \<Rightarrow> string list list" where
  "processes tr = concat (map process_command tr)"

definition finished_signals :: "event list \<Rightarrow> (bool \<times> string) list" where
  "finished_signals tr = concat (map finished_signal tr)"

definition info :: "string \<Rightarrow> event" where
  "info out = TerminalOutput out ''INFO''"

text \<open>Every event a computation adds satisfies \<open>P\<close>, whatever the environment does.\<close>

definition emits :: "'a io \<Rightarrow> (event \<Rightarrow> bool) \<Rightarrow> bool" where
  "emits m P = (\<forall>e h. list_all P (snd (m e h)))"

text \<open>Everything of the run that follows the installation of the base dependencies.\<close>

definition after_install :: "ProjectWorker \<Rightarrow> unit io" where
  "after_install w = seq
     [feature_configuration w, finalize_stage w, version_control_stage w, completion]"

text \<open>The stages before the version-control stage, and the stages before completion.\<close>

definition before_version_control :: "ProjectWorker \<Rightarrow> unit io" where
  "before_version_control w = seq
     [init_stage w, scaffold_stage w, install_stage w, feature_configuration w,
      finalize_stage w]"

definition all_stages :: "ProjectWorker \<Rightarrow> unit io" where
  "all_stages w = seq [before_version_control w, version_control_stage w]"

subsection \<open>Properties of traces\<close>

text \<open>Every event satisfying \<open>Q\<close> has an event satisfying \<open>P\<close> before it.\<close>

fun preceded_by :: "(event \<Rightarrow> bool) \<Rightarrow> (event \<Rightarrow> bool) \<Rightarrow> event list \<Rightarrow> bool" where
  "preceded_by P Q [] = True"
| "preceded_by P Q (x # xs) = (\<not> Q x \<and> (P x \<or> preceded_by P Q xs))"

text \<open>After an event satisfying \<open>P\<close>, every later event satisfies \<open>R\<close>.\<close>

fun only_then :: "(event \<Rightarrow> bool) \<Rightarrow> (event \<Rightarrow> bool) \<Rightarrow> event list \<Rightarrow> bool" where
  "only_then P R [] = True"
| "only_then P R (x # xs) = ((if P x then list_all R xs else True) \<and> only_then P R xs)"

fun is_started :: "string list \<Rightarrow> event \<Rightarrow> bool" where
  "is_started cmd (Started c) = (c = cmd)"
| "is_started cmd _ = False"

fun is_git_init :: "event \<Rightarrow> bool" where
  "is_git_init (Effect GitInit r) = True"
| "is_git_init _ = False"

text \<open>
  The events of the version-control stage, and the signals that close a run: once the
  repository is initialised, nothing else may follow.
\<close>

fun version_control_event :: "event \<Rightarrow> bool" where
  "version_control_event (Effect (WriteFile p c) r) = (p = ''.gitignore'')"
| "version_control_event (Effect GitInit r) = True"
| "version_control_event (Effect (GitIndexAdd ps) r) = True"
| "version_control_event (Effect (GitIndexCommit m) r) = True"
| "version_control_event (Effect a r) = False"
| "version_control_event (Started cmd) = False"
| "version_control_event (Process cmd ok) = False"
| "version_control_event (Progress n s) = True"
| "version_control_event (TerminalOutput s l) = True"
| "version_control_event (Finished ok s) = True"

text \<open>
  The files, directories and packages of the testing, router, state-management and
  deployment features, as the feature stages name them.
\<close>

definition feature_paths :: "string list" where
  "feature_paths =
     [''src/test/setup.ts'', ''src/test/App.test.tsx'',
      ''src/router/index.tsx'', ''src/pages/Home.tsx'', ''src/pages/About.tsx'',
      ''src/pages/NotFound.tsx'',
      ''src/store/index.ts'', ''src/store/slices/counterSlice.ts'',
      ''vercel.json'']"

definition feature_dirs :: "string list" where
  "feature_dirs = [''src/test'', ''src/router'', ''src/pages'', ''src/store'', ''src/store/slices'']"

definition feature_packages :: "string list" where
  "feature_packages =
     [''vitest'', ''jest'', ''@testing-library/react'', ''@testing-library/user-event'',
      ''@testing-library/jest-dom'', ''jsdom'', ''@types/jest'',
      ''react-router-dom'', ''@reduxjs/toolkit'', ''react-redux'', ''zustand'']"

text \<open>The packages named by a package-manager \<^verbatim>\<open>install\<close> invocation.\<close>

fun installed_packages :: "string list \<Rightarrow> string list" where
  "installed_packages (pm # sub # args) = (if sub = ''install'' then args else [])"
| "installed_packages _ = []"

fun feature_event :: "event \<Rightarrow> bool" where
  "feature_event (Effect (WriteFile p c) r) = (p \<in> set feature_paths)"
| "feature_event (Effect (Makedirs d) r) = (d \<in> set feature_dirs)"
| "feature_event (Effect a r) = False"
| "feature_event (Started cmd) =
     list_ex (\<lambda>pkg. pkg \<in> set feature_packages) (installed_packages cmd)"
| "feature_event (Process cmd ok) =
     list_ex (\<lambda>pkg. pkg \<in> set feature_packages) (installed_packages cmd)"
| "feature_event (Progress n s) = False"
| "feature_event (TerminalOutput s l) = False"
| "feature_event (Finished ok s) = False"

text \<open>Every path the worker can write to.\<close>

definition writable_paths :: "string list" where
  "writable_paths =
     [''tsconfig.json'', ''tailwind.config.js'', ''src/index.css'', ''src/styles/theme.ts'',
      ''src/styles/Example.module.css'', ''.eslintrc.json'', ''.prettierrc'',
      ''src/test/setup.ts'', ''src/test/App.test.tsx'',
      ''src/router/index.tsx'', ''src/pages/Home.tsx'', ''src/pages/About.tsx'',
      ''src/pages/NotFound.tsx'',
      ''src/store/index.ts'', ''src/store/slices/counterSlice.ts'',
      ''vercel.json'', ''.github/workflows/ci.yml'', ''.gitignore'']"

text \<open>
  An environment in which no call raises, every process exits with code zero in time,
  and every chunk of output decodes.
\<close>

definition benign :: "env \<Rightarrow> bool" where
  "benign e = ((\<forall>h a. raises e h a = None)
     \<and> (\<forall>h cmd. process_success (fst (spawn e h cmd)))
     \<and> (\<forall>h cmd. snd (handle_output (snd (spawn e h cmd)))))"

definition returns_normally :: "unit io \<Rightarrow> bool" where
  "returns_normally m = (\<forall>e h. benign e \<longrightarrow> fst (m e h) = Inr ())"

subsection \<open>The run with the optional stages suppressed\<close>

text \<open>
  What the specification asks of a configuration without testing, router, state
  management and deployment platform: the stages of these features are suppressed
  entirely. This is the run with those stages taken out, to be compared with \<open>run\<close>.
\<close>

definition run_with_features_suppressed :: "ProjectWorker \<Rightarrow> unit io" where
  "run_with_features_suppressed w = try_except
     (seq
       [emit (Progress 0 ''Initializing project...''),
        emit_log ''Starting project creation...'' ''INFO'',
        perform (Chdir (Str (project_directory w))),
        perform (Mkdir (project_path w)),
        emit (Progress 20 ''Creating project structure...''),
        run_or_raise (create_cmd w) ''Failed to create project structure'',
        perform (Chdir (project_path w)),
        emit (Progress 40 ''Installing dependencies...''),
        emit_log ''Installing core dependencies...'' ''INFO'',
        run_or_raise (install_cmd w) ''Failed to install core dependencies'',
        emit (Progress 60 ''Setting up project features...''),
        setup_features w,
        if_then (ci_cd (config w)) (seq
          [emit_log ''Setting up CI/CD configuration...'' ''INFO'',
           perform (Makedirs ''.github/workflows''),
           perform (WriteFile ''.github/workflows/ci.yml'' (Text (strip workflow)))]),
        if_then (git_integration (config w)) (setup_git w),
        emit (Progress 100 ''Project created successfully!''),
        emit_log ''Project setup completed successfully!'' ''SUCCESS'',
        emit (Finished True ''Project created successfully!'')])
     (\<lambda>msg. seq [emit_log (''Error: '' @ msg) ''ERROR'', emit (Finished False msg)])"

section \<open>The Git worker\<close>

text \<open>
  \<^verbatim>\<open>GitWorker.run\<close> calls GitPython, which is not part of the repository. A repository is
  modelled by what the commit operation reads and changes:
  \<^item> the untracked files (\<^verbatim>\<open>repo.untracked_files\<close>);
  \<^item> the paths of \<^verbatim>\<open>repo.index.diff(None)\<close>: the tracked files whose state in the working
    tree differs from the index, because they were modified or because they were deleted;
  \<^item> the paths that are not in the working tree, each with the message of the exception
    that \<^verbatim>\<open>index.add\<close> raises when it is asked to add it;
  \<^item> the paths staged in the index;
  \<^item> the commits, each with its message and the paths staged for it;
  \<^item> the message of the exception that \<^verbatim>\<open>index.commit\<close> raises (a failing hook), if it
    raises.

  \<^verbatim>\<open>git.Repo(path)\<close> raises for a path without a repository; the file system gives, for
  every path, the message of that exception or the repository.
\<close>

record repo =
  untracked_files :: "string list"
  index_diff :: "string list"
  missing :: "(string \<times> string) list"
  staged :: "string list"
  commits :: "(string \<times> string list) list"
  commit_error :: "string option"

type_synonym filesystem = "string \<Rightarrow> string + repo"

text \<open>The first of the paths that is not in the working tree, with its message.\<close>

fun first_missing :: "(string \<times> string) list \<Rightarrow> string list \<Rightarrow> string option" where
  "first_missing ms [] = None"
| "first_missing ms (p # ps) =
     (case map_of ms p of Some msg \<Rightarrow> Some msg | None \<Rightarrow> first_missing ms ps)"

text \<open>
  \<^verbatim>\<open>repo.index.add(paths)\<close>: it reads every path before it writes the index, so a
  missing path raises and nothing is staged; otherwise the paths are staged and no
  longer untracked or different from the index.
\<close>

definition index_add :: "string list \<Rightarrow> repo \<Rightarrow> string + repo" where
  "index_add paths r =
     (case first_missing (missing r) paths of
        Some msg \<Rightarrow> Inl msg
      | None \<Rightarrow> Inr (r\<lparr>
          untracked_files := filter (\<lambda>p. p \<notin> set paths) (untracked_files r),
          index_diff := filter (\<lambda>p. p \<notin> set paths) (index_diff r),
          staged := staged r @ paths\<rparr>))"

definition index_commit :: "string \<Rightarrow> repo \<Rightarrow> string + repo" where
  "index_commit message r =
     (case commit_error r of
        Some msg \<Rightarrow> Inl msg
      | None \<Rightarrow> Inr (r\<lparr>commits := commits r @ [(message, staged r)], staged := []\<rparr>))"

record GitWorker =
  repo_path :: string
  operation :: string
  commit_message :: "string option"
  remote_url :: "string option"
  branch :: "string option"
  is_running :: bool

datatype git_signal = GitProgress string | GitFinished bool string

text \<open>The message of the commit: the one supplied, or the default when none is.\<close>

definition commit_text :: "GitWorker \<Rightarrow> string" where
  "commit_text g = (if truthy_opt (commit_message g) then str_opt (commit_message g)
                    else ''Initial commit: Project setup'')"

text \<open>The handler of \<^verbatim>\<open>GitWorker.run\<close>: \<^verbatim>\<open>if self._is_running: self.finished.emit(False, str(e))\<close>.\<close>

definition git_handler :: "GitWorker \<Rightarrow> string \<Rightarrow> git_signal list" where
  "git_handler g msg = (if is_running g then [GitFinished False msg] else [])"

text \<open>
  The branch of \<^verbatim>\<open>GitWorker.run\<close> for \<^verbatim>\<open>operation == 'commit'\<close>, with its guard on
  \<^verbatim>\<open>_is_running\<close> and its exception handler. The result is the file system afterwards and
  the signals sent. An exception leaves the repository as the calls before it made it.
\<close>

definition git_commit :: "GitWorker \<Rightarrow> filesystem \<Rightarrow> filesystem \<times> git_signal list" where
  "git_commit g fs =
     (if \<not> is_running g then (fs, [])
      else case fs (repo_path g) of
        Inl msg \<Rightarrow> (fs, GitProgress ''Creating commit...'' # git_handler g msg)
      | Inr r \<Rightarrow>
         (case index_add
                 [item \<leftarrow> untracked_files r. \<not> starts_with item ''node_modules/''] r of
            Inl msg \<Rightarrow> (fs, GitProgress ''Creating commit...'' # git_handler g msg)
          | Inr r1 \<Rightarrow>
             (let changed_files = index_diff r1
              in case index_add changed_files r1 of
                Inl msg \<Rightarrow> (fs(repo_path g := Inr r1),
                             GitProgress ''Creating commit...'' # git_handler g msg)
              | Inr r2 \<Rightarrow>
                 (let message = commit_text g
                  in case index_commit message r2 of
                    Inl msg \<Rightarrow> (fs(repo_path g := Inr r2),
                                 GitProgress ''Creating commit...'' # git_handler g msg)
                  | Inr r3 \<Rightarrow>
                     (fs(repo_path g := Inr r3),
                      [GitProgress ''Creating commit...'',
                       GitFinished True
                         (''Changes committed successfully with message: '' @ message)])))))"

section \<open>Concrete inputs\<close>

definition default_config :: ProjectConfig where
  "default_config = \<lparr>name = ''demo'', template = ''react'', dependencies = [],
     dev_dependencies = [], git_integration = True, testing = True,
     test_framework = Some ''vitest'', styling_solution = ''Tailwind CSS'', typescript = True,
     eslint = True, prettier = True, package_manager = ''npm'', router = True,
     state_management = Some ''Redux Toolkit'', ci_cd = True,
     deployment_platform = Some ''Vercel''\<rparr>"

text \<open>Only version control is enabled; the styling choice is the form's entry \<^verbatim>\<open>None\<close>.\<close>

definition minimal_config :: ProjectConfig where
  "minimal_config = \<lparr>name = ''demo'', template = ''react'', dependencies = [],
     dev_dependencies = [], git_integration = True, testing = False,
     test_framework = None, styling_solution = ''None'', typescript = False,
     eslint = False, prettier = False, package_manager = ''npm'', router = False,
     state_management = None, ci_cd = False, deployment_platform = None\<rparr>"

definition typescript_config :: ProjectConfig where
  "typescript_config = minimal_config\<lparr>typescript := True\<rparr>"

definition jest_config :: ProjectConfig where
  "jest_config = minimal_config\<lparr>testing := True, test_framework := Some ''jest''\<rparr>"

definition vitest_config :: ProjectConfig where
  "vitest_config = minimal_config\<lparr>testing := True, test_framework := Some ''vitest''\<rparr>"

definition vercel_config_without_ci :: ProjectConfig where
  "vercel_config_without_ci = minimal_config\<lparr>deployment_platform := Some ''Vercel''\<rparr>"

definition vercel_config_with_ci :: ProjectConfig where
  "vercel_config_with_ci =
     minimal_config\<lparr>ci_cd := True, deployment_platform := Some ''Vercel''\<rparr>"

definition jotai_config :: ProjectConfig where
  "jotai_config = minimal_config\<lparr>state_management := Some ''Jotai''\<rparr>"

definition worker :: "ProjectConfig \<Rightarrow> ProjectWorker" where
  "worker c = \<lparr>config = c, npm_path = ''npm'', npx_path = ''npx'', project_directory = ''/home/u''\<rparr>"

text \<open>Every process exits with code zero after a second, printing one chunk; nothing raises.\<close>

definition ok_env :: env where
  "ok_env = \<lparr>spawn = (\<lambda>h cmd. (ExitsAfter 1000 0, [Some ''done''])), raises = (\<lambda>h a. None)\<rparr>"

text \<open>The same, except that \<^verbatim>\<open>npm install\<close> exits with code one.\<close>

definition install_fails_env :: env where
  "install_fails_env = \<lparr>
     spawn = (\<lambda>h cmd. if cmd = [''npm'', ''install'']
                       then (ExitsAfter 1000 1, [Some ''npm ERR!''])
                       else (ExitsAfter 1000 0, [Some ''done''])),
     raises = (\<lambda>h a. None)\<rparr>"

text \<open>
  As \<open>ok_env\<close>, except that \<^verbatim>\<open>npm install\<close> takes 31 seconds and then exits with code one.
\<close>

definition slow_install_env :: env where
  "slow_install_env = \<lparr>
     spawn = (\<lambda>h cmd. if cmd = [''npm'', ''install'']
                       then (ExitsAfter 31000 1, [Some ''npm ERR!''])
                       else (ExitsAfter 1000 0, [Some ''done''])),
     raises = (\<lambda>h a. None)\<rparr>"

text \<open>
  As \<open>ok_env\<close>, except that every command given to \<^verbatim>\<open>npx\<close>, the scaffolding tool among
  them, takes 31 seconds and then exits with code one.
\<close>

definition slow_scaffold_env :: env where
  "slow_scaffold_env = \<lparr>
     spawn = (\<lambda>h cmd. if take 1 cmd = [''npx'']
                       then (ExitsAfter 31000 1, [Some ''npm ERR!''])
                       else (ExitsAfter 1000 0, [Some ''done''])),
     raises = (\<lambda>h a. None)\<rparr>"

text \<open>As \<open>ok_env\<close>, except that the output of every process is not valid UTF-8.\<close>

definition undecodable_env :: env where
  "undecodable_env = \<lparr>spawn = (\<lambda>h cmd. (ExitsAfter 1000 0, [None])), raises = (\<lambda>h a. None)\<rparr>"

text \<open>
  A repository with two new files, a file under \<^verbatim>\<open>node_modules\<close> and one modified tracked
  file, a worker that commits it with a message, and one pointed at a path without a
  repository.
\<close>

definition demo_repo :: repo where
  "demo_repo = \<lparr>
     untracked_files = [''src/pages/New.tsx'', ''README.md'', ''node_modules/react/index.js''],
     index_diff = [''src/App.tsx''],
     missing = [],
     staged = [],
     commits = [(''Initial commit: Project setup'', [''.''])],
     commit_error = None\<rparr>"

text \<open>The same repository after the tracked file \<^verbatim>\<open>src/Old.tsx\<close> has been deleted.\<close>

definition repo_with_deleted_file :: repo where
  "repo_with_deleted_file = demo_repo\<lparr>
     index_diff := [''src/App.tsx'', ''src/Old.tsx''],
     missing := [(''src/Old.tsx'', ''No such file or directory: src/Old.tsx'')]\<rparr>"

definition fs_with_deleted_file :: filesystem where
  "fs_with_deleted_file =
     (\<lambda>path. if path = ''/home/u/demo'' then Inr repo_with_deleted_file else Inl path)"

definition demo_fs :: filesystem where
  "demo_fs = (\<lambda>path. if path = ''/home/u/demo'' then Inr demo_repo else Inl path)"

definition commit_worker :: GitWorker where
  "commit_worker = \<lparr>repo_path = ''/home/u/demo'', operation = ''commit'',
     commit_message = Some ''Add the new page'', remote_url = None, branch = None,
     is_running = True\<rparr>"

definition lost_worker :: GitWorker where
  "lost_worker = commit_worker\<lparr>repo_path := ''/home/u/elsewhere''\<rparr>"

text \<open>Every process takes 31 seconds and exits with code one.\<close>

definition slow_env :: env where
  "slow_env = \<lparr>spawn = (\<lambda>h cmd. (ExitsAfter 31000 1, [])), raises = (\<lambda>h a. None)\<rparr>"

section \<open>Laws of the computations\<close>

lemma fst_bind:
  "fst (bind m f e h) =
     (case fst (m e h) of Inl failed \<Rightarrow> Inl failed | Inr x \<Rightarrow> fst (f x e (h @ snd (m e h))))"
  by (simp add: bind_def split: prod.splits sum.splits)

lemma snd_bind:
  "snd (bind m f e h) =
     snd (m e h) @
       (case fst (m e h) of Inl failed \<Rightarrow> [] | Inr x \<Rightarrow> snd (f x e (h @ snd (m e h))))"
  by (simp add: bind_def split: prod.splits sum.splits)

lemma fst_try_except:
  "fst (try_except m handler e h) =
     (case fst (m e h) of
        Inl (Raised msg) \<Rightarrow> fst (handler msg e (h @ snd (m e h)))
      | Inl Aborted \<Rightarrow> Inl Aborted
      | Inr x \<Rightarrow> Inr x)"
  by (simp add: try_except_def split: prod.splits sum.splits failure.splits)

lemma snd_try_except:
  "snd (try_except m handler e h) =
     snd (m e h) @
       (case fst (m e h) of
          Inl (Raised msg) \<Rightarrow> snd (handler msg e (h @ snd (m e h)))
        | Inl Aborted \<Rightarrow> []
        | Inr x \<Rightarrow> [])"
  by (simp add: try_except_def split: prod.splits sum.splits failure.splits)

lemma bind_return: "bind (return x) f = f x"
  by (rule ext, rule ext) (simp add: bind_def return_def split: prod.splits)

lemma bind_assoc: "bind (bind m f) g = bind m (\<lambda>x. bind (f x) g)"
  by (rule ext, rule ext) (simp add: bind_def split: prod.splits sum.splits)

lemma seq_append: "seq (xs @ ys) = bind (seq xs) (\<lambda>_. seq ys)"
  by (induction xs) (simp_all add: seq.simps bind_return bind_assoc)

lemma seq_seq_cons: "seq (seq xs # ys) = seq (xs @ ys)"
  by (simp add: seq.simps seq_append)

lemma seq_single: "seq [m] = m"
  by (rule ext, rule ext) (simp add: seq.simps bind_def return_def split: prod.splits sum.splits)

lemma run_body_stages:
  "run_body w = seq [init_stage w, scaffold_stage w, install_stage w, feature_configuration w,
     finalize_stage w, version_control_stage w, completion]"
  unfolding run_body_def init_stage_def scaffold_stage_def install_stage_def
    feature_configuration_def finalize_stage_def version_control_stage_def completion_def
  by (simp add: seq.simps bind_assoc bind_return)

section \<open>What a computation can add to the trace\<close>

named_theorems emits_intros

lemma emits_return [emits_intros]: "emits (return x) P"
  by (simp add: emits_def return_def)

lemma emits_raise [emits_intros]: "emits (raise msg) P"
  by (simp add: emits_def raise_def)

lemma emits_emit [emits_intros]: "P ev \<Longrightarrow> emits (emit ev) P"
  by (simp add: emits_def emit_def)

lemma emits_emit_log [emits_intros]: "P (TerminalOutput s l) \<Longrightarrow> emits (emit_log s l) P"
  by (simp add: emits_def emit_def emit_log_def)

lemma emits_perform [emits_intros]: "(\<And>r. P (Effect a r)) \<Longrightarrow> emits (perform a) P"
  by (simp add: emits_def perform_def split: option.splits)

lemma emits_run_process [emits_intros]:
  "P (Started cmd) \<Longrightarrow> (\<And>ok. P (Process cmd ok)) \<Longrightarrow>
   (\<And>out. P (TerminalOutput out ''INFO'')) \<Longrightarrow> emits (run_process cmd) P"
  by (auto simp add: emits_def run_process_def list_all_iff Let_def split: prod.splits)

lemma emits_bind [emits_intros]:
  "emits m P \<Longrightarrow> (\<And>x. emits (f x) P) \<Longrightarrow> emits (bind m f) P"
  by (simp add: emits_def snd_bind split: sum.splits)

lemma emits_run_or_raise [emits_intros]:
  "P (Started cmd) \<Longrightarrow> (\<And>ok. P (Process cmd ok)) \<Longrightarrow>
   (\<And>out. P (TerminalOutput out ''INFO'')) \<Longrightarrow> emits (run_or_raise cmd msg) P"
  unfolding run_or_raise_def
  by (intro emits_bind emits_run_process) (simp_all add: emits_return emits_raise)

lemma emits_seq_Nil [emits_intros]: "emits (seq []) P"
  by (simp add: seq.simps emits_return)

lemma emits_seq_Cons [emits_intros]:
  "emits m P \<Longrightarrow> emits (seq ms) P \<Longrightarrow> emits (seq (m # ms)) P"
  by (simp add: seq.simps emits_bind)

lemma emits_if_then [emits_intros]: "(b \<Longrightarrow> emits m P) \<Longrightarrow> emits (if_then b m) P"
  by (simp add: if_then_def emits_return)

lemma emits_if [emits_intros]:
  "(b \<Longrightarrow> emits m P) \<Longrightarrow> (\<not> b \<Longrightarrow> emits n P) \<Longrightarrow> emits (if b then m else n) P"
  by simp

lemma emits_try_except [emits_intros]:
  "emits m P \<Longrightarrow> (\<And>msg. emits (handler msg) P) \<Longrightarrow> emits (try_except m handler) P"
  by (simp add: emits_def snd_try_except split: sum.splits failure.splits)

lemmas stage_defs =
  after_install_def feature_configuration_def finalize_stage_def version_control_stage_def
  completion_def setup_features_def setup_typescript_def setup_styling_def setup_tailwind_def
  setup_styled_components_def setup_css_modules_def setup_linting_def setup_testing_def
  setup_router_def setup_redux_toolkit_def setup_zustand_def setup_state_management_def
  setup_ci_cd_def setup_vercel_deployment_def setup_git_def pages_def Let_def

lemma after_install_no_base_install:
  "emits (after_install w)
     (\<lambda>ev. ev \<noteq> Started (install_cmd w) \<and> (\<forall>ok. ev \<noteq> Process (install_cmd w) ok))"
  unfolding stage_defs
  by (simp only: list.map prod.case) (intro emits_intros; simp add: install_cmd_def testing_deps_def)

lemma run_after_install:
  "run w = try_except
     (bind (init_stage w) (\<lambda>_. bind (scaffold_stage w) (\<lambda>_. bind (install_stage w)
        (\<lambda>_. after_install w))))
     failure_handler"
  unfolding run_def run_body_stages after_install_def failure_handler_def
  by (simp add: seq.simps seq_single)



lemma return_apply: "return x e h = (Inr x, [])"
  by (simp add: return_def)

lemma raise_apply: "raise msg e h = (Inl (Raised msg), [])"
  by (simp add: raise_def)

lemma emit_apply: "emit ev e h = (Inr (), [ev])"
  by (simp add: emit_def)

lemma emit_log_apply: "emit_log s l e h = (Inr (), [TerminalOutput s l])"
  by (simp add: emit_log_def emit_def)

lemma perform_apply:
  "perform a e h = (case raises e h a of None \<Rightarrow> Inr () | Some msg \<Rightarrow> Inl (Raised msg),
                    [Effect a (raises e h a)])"
  by (simp add: perform_def split: option.splits)

lemma run_or_raise_apply:
  "run_or_raise cmd msg e h =
     (let p = spawn e h cmd; r = handle_output (snd p)
      in if snd r
         then (if process_success (fst p) then Inr () else Inl (Raised msg),
               Started cmd # map info (fst r) @ [Process cmd (process_success (fst p))])
         else (Inl Aborted, Started cmd # map info (fst r)))"
  by (simp add: run_or_raise_def run_process_def bind_def return_def raise_def info_def Let_def
      split: prod.splits)

lemma bind_apply:
  "bind m f e h = (case fst (m e h) of
       Inl failed \<Rightarrow> (Inl failed, snd (m e h))
     | Inr x \<Rightarrow> (fst (f x e (h @ snd (m e h))), snd (m e h) @ snd (f x e (h @ snd (m e h)))))"
  by (simp add: bind_def split: prod.splits sum.splits)

lemma try_except_apply:
  "try_except m handler e h = (case fst (m e h) of
       Inl (Raised msg) \<Rightarrow> (fst (handler msg e (h @ snd (m e h))),
                   snd (m e h) @ snd (handler msg e (h @ snd (m e h))))
     | Inl Aborted \<Rightarrow> (Inl Aborted, snd (m e h))
     | Inr x \<Rightarrow> (Inr x, snd (m e h)))"
  by (simp add: try_except_def split: prod.splits sum.splits failure.splits)

lemma if_then_apply: "if_then b m e h = (if b then m e h else (Inr (), []))"
  by (simp add: if_then_def return_def)

lemmas apply_simps =
  return_apply raise_apply emit_apply emit_log_apply perform_apply run_or_raise_apply
  bind_apply try_except_apply if_then_apply seq.simps


lemma init_stage_apply:
  "init_stage w e h =
     (let r1 = raises e (h @ [Progress 0 ''Initializing project...'',
                 TerminalOutput ''Starting project creation...'' ''INFO''])
                 (Chdir (Str (project_directory w)));
          r2 = raises e (h @ [Progress 0 ''Initializing project...'',
                 TerminalOutput ''Starting project creation...'' ''INFO'',
                 Effect (Chdir (Str (project_directory w))) None])
                 (Mkdir (project_path w))
      in case r1 of
           Some msg \<Rightarrow> (Inl (Raised msg),
             [Progress 0 ''Initializing project...'',
              TerminalOutput ''Starting project creation...'' ''INFO'',
              Effect (Chdir (Str (project_directory w))) (Some msg)])
         | None \<Rightarrow> (case r2 of None \<Rightarrow> Inr () | Some msg \<Rightarrow> Inl (Raised msg),
             [Progress 0 ''Initializing project...'',
              TerminalOutput ''Starting project creation...'' ''INFO'',
              Effect (Chdir (Str (project_directory w))) None,
              Effect (Mkdir (project_path w)) r2]))"
  unfolding init_stage_def
  by (simp add: apply_simps Let_def split: option.splits)

lemma init_stage_cases:
  obtains (chdir_raises) msg where
      "init_stage w e h = (Inl (Raised msg),
         [Progress 0 ''Initializing project...'',
          TerminalOutput ''Starting project creation...'' ''INFO'',
          Effect (Chdir (Str (project_directory w))) (Some msg)])"
  | (mkdir_raises) msg where
      "init_stage w e h = (Inl (Raised msg),
         [Progress 0 ''Initializing project...'',
          TerminalOutput ''Starting project creation...'' ''INFO'',
          Effect (Chdir (Str (project_directory w))) None,
          Effect (Mkdir (project_path w)) (Some msg)])"
  | (completes)
      "init_stage w e h = (Inr (),
         [Progress 0 ''Initializing project...'',
          TerminalOutput ''Starting project creation...'' ''INFO'',
          Effect (Chdir (Str (project_directory w))) None,
          Effect (Mkdir (project_path w)) None])"
  using init_stage_apply [of w e h]
  by (auto simp add: Let_def split: option.splits)

lemma scaffold_stage_apply:
  "scaffold_stage w e h =
     (let p = spawn e (h @ [Progress 20 ''Creating project structure...'']) (create_cmd w);
          r = handle_output (snd p)
      in if snd r
         then (if process_success (fst p) then Inr ()
               else Inl (Raised ''Failed to create project structure''),
               [Progress 20 ''Creating project structure...'', Started (create_cmd w)]
               @ map info (fst r) @ [Process (create_cmd w) (process_success (fst p))])
         else (Inl Aborted,
               [Progress 20 ''Creating project structure...'', Started (create_cmd w)]
               @ map info (fst r)))"
  unfolding scaffold_stage_def
  by (simp add: apply_simps Let_def)

lemma scaffold_stage_cases:
  obtains (aborts) out where
      "scaffold_stage w e h = (Inl Aborted,
         [Progress 20 ''Creating project structure...'', Started (create_cmd w)]
         @ map info out)"
  | (fails) out where
      "scaffold_stage w e h = (Inl (Raised ''Failed to create project structure''),
         [Progress 20 ''Creating project structure...'', Started (create_cmd w)]
         @ map info out @ [Process (create_cmd w) False])"
  | (succeeds) out where
      "scaffold_stage w e h = (Inr (),
         [Progress 20 ''Creating project structure...'', Started (create_cmd w)]
         @ map info out @ [Process (create_cmd w) True])"
  using scaffold_stage_apply [of w e h]
  by (auto simp add: Let_def split: if_splits)

lemma install_stage_apply:
  "install_stage w e h =
     (let r = raises e h (Chdir (project_path w));
          p = spawn e (h @ [Effect (Chdir (project_path w)) None,
                Progress 40 ''Installing dependencies...'',
                TerminalOutput ''Installing core dependencies...'' ''INFO'']) (install_cmd w)
      in case r of
           Some msg \<Rightarrow> (Inl (Raised msg), [Effect (Chdir (project_path w)) (Some msg)])
         | None \<Rightarrow>
            (if snd (handle_output (snd p))
             then (if process_success (fst p) then Inr ()
                   else Inl (Raised ''Failed to install core dependencies''),
                   [Effect (Chdir (project_path w)) None,
                    Progress 40 ''Installing dependencies...'',
                    TerminalOutput ''Installing core dependencies...'' ''INFO'',
                    Started (install_cmd w)] @ map info (fst (handle_output (snd p)))
                   @ [Process (install_cmd w) (process_success (fst p))])
             else (Inl Aborted,
                   [Effect (Chdir (project_path w)) None,
                    Progress 40 ''Installing dependencies...'',
                    TerminalOutput ''Installing core dependencies...'' ''INFO'',
                    Started (install_cmd w)] @ map info (fst (handle_output (snd p))))))"
  unfolding install_stage_def
  by (simp add: apply_simps Let_def split: option.splits)

lemma install_stage_cases:
  obtains (chdir_raises) msg where
      "install_stage w e h = (Inl (Raised msg), [Effect (Chdir (project_path w)) (Some msg)])"
  | (aborts) out where
      "install_stage w e h = (Inl Aborted,
         [Effect (Chdir (project_path w)) None,
          Progress 40 ''Installing dependencies...'',
          TerminalOutput ''Installing core dependencies...'' ''INFO'',
          Started (install_cmd w)] @ map info out)"
  | (fails) out where
      "install_stage w e h = (Inl (Raised ''Failed to install core dependencies''),
         [Effect (Chdir (project_path w)) None,
          Progress 40 ''Installing dependencies...'',
          TerminalOutput ''Installing core dependencies...'' ''INFO'',
          Started (install_cmd w)] @ map info out @ [Process (install_cmd w) False])"
  | (succeeds) out where
      "install_stage w e h = (Inr (),
         [Effect (Chdir (project_path w)) None,
          Progress 40 ''Installing dependencies...'',
          TerminalOutput ''Installing core dependencies...'' ''INFO'',
          Started (install_cmd w)] @ map info out @ [Process (install_cmd w) True])"
  using install_stage_apply [of w e h]
  by (auto simp add: Let_def split: option.splits if_splits)

lemma failure_handler_apply:
  "failure_handler msg e h =
     (Inr (), [TerminalOutput (''Error: '' @ msg) ''ERROR'', Finished False msg])"
  by (simp add: failure_handler_def apply_simps)

lemma seq_Nil_apply: "seq [] e h = (Inr (), [])"
  by (simp add: seq.simps return_apply)

lemma seq_Cons_apply:
  "seq (m # ms) e h = (case fst (m e h) of
       Inl failed \<Rightarrow> (Inl failed, snd (m e h))
     | Inr x \<Rightarrow> (fst (seq ms e (h @ snd (m e h))), snd (m e h) @ snd (seq ms e (h @ snd (m e h)))))"
  by (simp add: seq.simps bind_apply)

lemma perform3_apply:
  "seq [perform a, perform b, perform c] e h =
     (case raises e h a of
        Some msg \<Rightarrow> (Inl (Raised msg), [Effect a (Some msg)])
      | None \<Rightarrow>
         (case raises e (h @ [Effect a None]) b of
            Some msg \<Rightarrow> (Inl (Raised msg), [Effect a None, Effect b (Some msg)])
          | None \<Rightarrow>
             (case raises e (h @ [Effect a None, Effect b None]) c of
                Some msg \<Rightarrow>
                  (Inl (Raised msg), [Effect a None, Effect b None, Effect c (Some msg)])
              | None \<Rightarrow> (Inr (), [Effect a None, Effect b None, Effect c None]))))"
  by (simp add: seq_Cons_apply seq_Nil_apply perform_apply split: option.splits)

section \<open>Observations on the parts of a trace\<close>

lemma attempted_writes_simps:
  "attempted_writes [] = []"
  "attempted_writes (x # xs) = write_path x @ attempted_writes xs"
  "attempted_writes (xs @ ys) = attempted_writes xs @ attempted_writes ys"
  "attempted_writes (map info out) = []"
  by (induction out) (simp_all add: attempted_writes_def info_def)

lemma written_simps:
  "written [] = []"
  "written (x # xs) = written_file x @ written xs"
  "written (xs @ ys) = written xs @ written ys"
  "written (map info out) = []"
  by (induction out) (simp_all add: written_def info_def)

lemma processes_simps:
  "processes [] = []"
  "processes (x # xs) = process_command x @ processes xs"
  "processes (xs @ ys) = processes xs @ processes ys"
  "processes (map info out) = []"
  by (induction out) (simp_all add: processes_def info_def)

lemma finished_signals_simps:
  "finished_signals [] = []"
  "finished_signals (x # xs) = finished_signal x @ finished_signals xs"
  "finished_signals (xs @ ys) = finished_signals xs @ finished_signals ys"
  "finished_signals (map info out) = []"
  by (induction out) (simp_all add: finished_signals_def info_def)

lemma attempted_writes_all:
  "list_all (\<lambda>ev. list_all Q (write_path ev)) tr \<Longrightarrow> list_all Q (attempted_writes tr)"
  by (induction tr) (simp_all add: attempted_writes_def)

lemmas run_simps =
  trace_of_def run_after_install snd_try_except snd_bind fst_bind failure_handler_apply

lemma process_success_simps:
  "process_success (FailsToStart c) = (c = 0)"
  "process_success (ExitsAfter t c) = (if t \<le> 30000 then c = 0 else True)"
  "process_success NeverExits = True"
  by (simp_all add: process_success_def start_def QProcess_new_def)

lemmas concrete_defs =
  worker_def default_config_def minimal_config_def typescript_config_def jest_config_def
  vitest_config_def vercel_config_without_ci_def vercel_config_with_ci_def jotai_config_def ok_env_def install_fails_env_def slow_env_def
  slow_install_env_def slow_scaffold_env_def undecodable_env_def
  create_cmd_def install_cmd_def project_path_def process_success_simps Let_def


lemmas run_defs =
  run_def run_body_def setup_features_def setup_typescript_def setup_styling_def
  setup_tailwind_def setup_styled_components_def setup_css_modules_def setup_linting_def
  setup_testing_def setup_router_def setup_redux_toolkit_def setup_zustand_def
  setup_state_management_def setup_ci_cd_def setup_vercel_deployment_def setup_git_def
  pages_def Let_def

lemmas stage_cut_defs =
  before_version_control_def all_stages_def init_stage_def scaffold_stage_def
  install_stage_def feature_configuration_def finalize_stage_def version_control_stage_def
  completion_def failure_handler_def

text \<open>Evaluation of a run on a concrete worker and environment.\<close>

lemmas eval_simps =
  trace_of_def run_defs testing_deps_def truthy_def seq.simps
  bind_def try_except_def return_def raise_def emit_def emit_log_def perform_def
  run_or_raise_def run_process_def if_then_def concrete_defs

lemma emitsD: "emits m P \<Longrightarrow> list_all P (snd (m e h))"
  by (simp add: emits_def)

lemma snd_try_except_bind:
  "snd (try_except (bind m f) handler e h) =
     snd (m e h) @ (case fst (m e h) of
         Inl (Raised msg) \<Rightarrow> snd (handler msg e (h @ snd (m e h)))
       | Inl Aborted \<Rightarrow> []
       | Inr x \<Rightarrow> snd (try_except (f x) handler e (h @ snd (m e h))))"
  by (simp add: try_except_def bind_def split: prod.splits sum.splits failure.splits)

lemma run_version_control:
  "run w = try_except
     (bind (before_version_control w) (\<lambda>_. bind (version_control_stage w) (\<lambda>_. completion)))
     failure_handler"
  unfolding run_def run_body_def stage_cut_defs
  by (simp add: seq.simps bind_assoc bind_return)

lemma run_all_stages:
  "run w = try_except (bind (all_stages w) (\<lambda>_. completion)) failure_handler"
  unfolding run_def run_body_def stage_cut_defs
  by (simp add: seq.simps bind_assoc bind_return)

lemma completion_apply:
  "completion e h = (Inr (),
     [Progress 100 ''Project created successfully!'',
      TerminalOutput ''Project setup completed successfully!'' ''SUCCESS'',
      Finished True ''Project created successfully!''])"
  by (simp add: completion_def apply_simps)

lemma run_trace_all_stages:
  "trace_of (run w) e = snd (all_stages w e []) @
     (case fst (all_stages w e []) of
        Inl (Raised msg) \<Rightarrow> [TerminalOutput (''Error: '' @ msg) ''ERROR'', Finished False msg]
      | Inl Aborted \<Rightarrow> []
      | Inr x \<Rightarrow> [Progress 100 ''Project created successfully!'',
          TerminalOutput ''Project setup completed successfully!'' ''SUCCESS'',
          Finished True ''Project created successfully!''])"
  unfolding trace_of_def run_all_stages snd_try_except_bind
  by (simp add: failure_handler_apply completion_apply snd_try_except
      split: sum.splits failure.splits)

section \<open>At most one terminal signal\<close>

lemma all_stages_not_finished:
  "emits (all_stages w) (\<lambda>ev. finished_signal ev = [])"
  unfolding stage_cut_defs run_defs
  by (simp only: list.map prod.case) (intro emits_intros; simp)

lemma finished_signals_none:
  "list_all (\<lambda>ev. finished_signal ev = []) tr \<Longrightarrow> finished_signals tr = []"
  by (induction tr) (simp_all add: finished_signals_def)

lemma one_finished_signal:
  "finished_signals (trace_of (run w) e) =
     (case fst (all_stages w e []) of
        Inl (Raised msg) \<Rightarrow> [(False, msg)]
      | Inl Aborted \<Rightarrow> []
      | Inr x \<Rightarrow> [(True, ''Project created successfully!'')])"
  unfolding run_trace_all_stages
  using finished_signals_none [OF emitsD [OF all_stages_not_finished, of w e "[]"]]
  by (simp add: finished_signals_simps split: sum.splits failure.splits)

section \<open>Failure of the base installation\<close>

text \<open>
  When \<open>run_process\<close> returns \<open>False\<close> for the base installation, the run consists of the
  init stage, the scaffold invocation, the \<^verbatim>\<open>install\<close> invocation and the two closing
  signals, and of nothing else: no file is written, no further process is started and the
  only \<^verbatim>\<open>finished\<close> signal is a failure carrying the message of the installation step.
\<close>

lemma install_flag_false_trace:
  assumes "Process (install_cmd w) False \<in> set (trace_of (run w) e)"
  shows "\<exists>out1 out2. trace_of (run w) e =
           [Progress 0 ''Initializing project...'',
            TerminalOutput ''Starting project creation...'' ''INFO'',
            Effect (Chdir (Str (project_directory w))) None,
            Effect (Mkdir (project_path w)) None,
            Progress 20 ''Creating project structure...'',
            Started (create_cmd w)] @ map info out1 @
           [Process (create_cmd w) True,
            Effect (Chdir (project_path w)) None,
            Progress 40 ''Installing dependencies...'',
            TerminalOutput ''Installing core dependencies...'' ''INFO'',
            Started (install_cmd w)] @ map info out2 @
           [Process (install_cmd w) False,
            TerminalOutput ''Error: Failed to install core dependencies'' ''ERROR'',
            Finished False ''Failed to install core dependencies'']"
proof -
  have rest: "Process (install_cmd w) False \<notin> set (snd (after_install w e h))" for h
    using after_install_no_base_install [of w] by (auto simp add: emits_def list_all_iff)
  have ne: "create_cmd w \<noteq> install_cmd w"
    by (simp add: create_cmd_def install_cmd_def)
  define i where "i = [Progress 0 ''Initializing project...'',
            TerminalOutput ''Starting project creation...'' ''INFO'',
            Effect (Chdir (Str (project_directory w))) None,
            Effect (Mkdir (project_path w)) None]"
  show ?thesis
  proof (cases rule: init_stage_cases [of w e "[]"])
    case (chdir_raises msg)
    with assms show ?thesis by (simp add: run_simps)
  next
    case (mkdir_raises msg)
    with assms show ?thesis by (simp add: run_simps)
  next
    case completes
    then have init: "init_stage w e [] = (Inr (), i)" by (simp add: i_def)
    show ?thesis
    proof (cases rule: scaffold_stage_cases [of w e i])
      case (aborts out)
      with assms init ne show ?thesis by (auto simp add: run_simps i_def info_def)
    next
      case (fails out)
      with assms init ne show ?thesis by (auto simp add: run_simps i_def info_def)
    next
      case (succeeds out1)
      note scaffold = this
      define s where "s = [Progress 20 ''Creating project structure...'',
         Started (create_cmd w)] @ map info out1 @ [Process (create_cmd w) True]"
      show ?thesis
      proof (cases rule: install_stage_cases [of w e "i @ s"])
        case (chdir_raises msg)
        with assms init scaffold ne show ?thesis
          by (auto simp add: run_simps i_def s_def info_def)
      next
        case (aborts out2)
        with assms init scaffold ne show ?thesis
          by (auto simp add: run_simps i_def s_def info_def)
      next
        case (fails out2)
        with init scaffold show ?thesis
          by (intro exI [of _ out1] exI [of _ out2]) (simp add: run_simps i_def s_def)
      next
        case (succeeds out2)
        with assms init scaffold ne rest show ?thesis
          by (auto simp add: run_simps i_def s_def info_def split: sum.splits failure.splits)
      qed
    qed
  qed
qed

lemma install_flag_false_short_circuit:
  assumes "Process (install_cmd w) False \<in> set (trace_of (run w) e)"
  shows "attempted_writes (trace_of (run w) e) = []
       \<and> processes (trace_of (run w) e) = [create_cmd w, install_cmd w]
       \<and> finished_signals (trace_of (run w) e) =
           [(False, ''Failed to install core dependencies'')]"
proof -
  from install_flag_false_trace [OF assms] obtain out1 out2 where
    tr: "trace_of (run w) e =
           [Progress 0 ''Initializing project...'',
            TerminalOutput ''Starting project creation...'' ''INFO'',
            Effect (Chdir (Str (project_directory w))) None,
            Effect (Mkdir (project_path w)) None,
            Progress 20 ''Creating project structure...'',
            Started (create_cmd w)] @ map info out1 @
           [Process (create_cmd w) True,
            Effect (Chdir (project_path w)) None,
            Progress 40 ''Installing dependencies...'',
            TerminalOutput ''Installing core dependencies...'' ''INFO'',
            Started (install_cmd w)] @ map info out2 @
           [Process (install_cmd w) False,
            TerminalOutput ''Error: Failed to install core dependencies'' ''ERROR'',
            Finished False ''Failed to install core dependencies'']"
    by blast
  have "attempted_writes (trace_of (run w) e) = []"
    unfolding tr by (simp add: attempted_writes_simps)
  moreover have "processes (trace_of (run w) e) = [create_cmd w, install_cmd w]"
    unfolding tr by (simp add: processes_simps)
  moreover have "finished_signals (trace_of (run w) e) =
      [(False, ''Failed to install core dependencies'')]"
    unfolding tr by (simp add: finished_signals_simps)
  ultimately show ?thesis by blast
qed

text \<open>
  C1. The claim is that a base installation exiting with a non-zero code stops the run
  before any feature stage and ends it with a failure signal. The code does not do this
  when the installation takes longer than the 30 seconds \<open>run_process\<close> waits: with
  TypeScript selected and an \<^verbatim>\<open>npm install\<close> that exits with code 1 after 31 seconds,
  \<open>run_process\<close> returns \<open>True\<close> for it, the TypeScript stage runs and writes
  \<^verbatim>\<open>tsconfig.json\<close>, and the only \<^verbatim>\<open>finished\<close> signal of the run reports success.
\<close>

theorem slow_failed_install_is_not_short_circuited:
  "(\<forall>h. fst (spawn slow_install_env h (install_cmd (worker typescript_config))) =
         ExitsAfter 31000 1)
   \<and> Process (install_cmd (worker typescript_config)) True
        \<in> set (trace_of (run (worker typescript_config)) slow_install_env)
   \<and> written (trace_of (run (worker typescript_config)) slow_install_env) =
       [(''tsconfig.json'', JsonDump ts_config), (''.gitignore'', Text (strip gitignore))]
   \<and> processes (trace_of (run (worker typescript_config)) slow_install_env) =
       [[''npx'', ''create-vite@latest'', ''demo'', ''--template'', ''react-ts''],
        [''npm'', ''install'']]
   \<and> finished_signals (trace_of (run (worker typescript_config)) slow_install_env) =
       [(True, ''Project created successfully!'')]"
  by (simp add: eval_simps written_def processes_def finished_signals_def)
section \<open>Order of the stages\<close>

lemma preceded_by_decompose:
  "preceded_by P Q tr \<Longrightarrow> tr = pre @ x # post \<Longrightarrow> Q x \<Longrightarrow> \<exists>y \<in> set pre. P y"
proof (induction pre arbitrary: tr)
  case Nil
  then show ?case by auto
next
  case (Cons a pre)
  then show ?case by (cases "P a") auto
qed

lemma preceded_by_info:
  "(\<And>s. \<not> P (info s)) \<Longrightarrow> (\<And>s. \<not> Q (info s)) \<Longrightarrow>
   preceded_by P Q (map info out @ ys) = preceded_by P Q ys"
  by (induction out) simp_all

lemma preceded_by_info_only:
  "(\<And>s. \<not> P (info s)) \<Longrightarrow> (\<And>s. \<not> Q (info s)) \<Longrightarrow> preceded_by P Q (map info out)"
  using preceded_by_info [of P Q out "[]"] by simp

lemma only_then_decompose:
  "only_then P R tr \<Longrightarrow> tr = pre @ x # post \<Longrightarrow> P x \<Longrightarrow> list_all R post"
  by (induction pre arbitrary: tr) auto

lemma only_then_all: "list_all R xs \<Longrightarrow> only_then P R xs"
  by (induction xs) auto

lemma only_then_append:
  "list_all (\<lambda>x. \<not> P x) xs \<Longrightarrow> list_all R ys \<Longrightarrow> only_then P R (xs @ ys)"
  by (induction xs) (auto simp add: only_then_all)

lemma scaffold_after_init:
  "preceded_by (\<lambda>ev. ev = Effect (Mkdir (project_path w)) None) (is_started (create_cmd w))
     (trace_of (run w) e)"
proof (cases rule: init_stage_cases [of w e "[]"])
  case (chdir_raises msg)
  then show ?thesis by (simp add: run_simps)
next
  case (mkdir_raises msg)
  then show ?thesis by (simp add: run_simps)
next
  case completes
  then show ?thesis by (simp add: run_simps)
qed

lemma install_after_scaffold:
  "preceded_by (\<lambda>ev. ev = Process (create_cmd w) True) (is_started (install_cmd w))
     (trace_of (run w) e)"
proof -
  have ne: "create_cmd w \<noteq> install_cmd w"
    by (simp add: create_cmd_def install_cmd_def)
  define i where "i = [Progress 0 ''Initializing project...'',
            TerminalOutput ''Starting project creation...'' ''INFO'',
            Effect (Chdir (Str (project_directory w))) None,
            Effect (Mkdir (project_path w)) None]"
  show ?thesis
  proof (cases rule: init_stage_cases [of w e "[]"])
    case (chdir_raises msg)
    then show ?thesis by (simp add: run_simps)
  next
    case (mkdir_raises msg)
    then show ?thesis by (simp add: run_simps)
  next
    case completes
    then have init: "init_stage w e [] = (Inr (), i)" by (simp add: i_def)
    show ?thesis
    proof (cases rule: scaffold_stage_cases [of w e i])
      case (aborts out)
      with init ne show ?thesis
        by (simp add: run_simps i_def preceded_by_info_only info_def)
    next
      case (fails out)
      with init ne show ?thesis
        by (simp add: run_simps i_def preceded_by_info info_def)
    next
      case (succeeds out)
      with init ne show ?thesis
        by (simp add: run_simps i_def preceded_by_info info_def)
    qed
  qed
qed

lemma before_version_control_no_git:
  "emits (before_version_control w) (\<lambda>ev. \<not> is_git_init ev)"
  unfolding stage_cut_defs run_defs
  by (simp only: list.map prod.case) (intro emits_intros; simp)

lemma version_control_stage_events:
  "emits (version_control_stage w) version_control_event"
  unfolding stage_cut_defs run_defs
  by (intro emits_intros; simp)

lemma completion_events: "emits completion version_control_event"
  unfolding stage_cut_defs
  by (intro emits_intros; simp)

lemma failure_handler_events: "emits (failure_handler msg) version_control_event"
  unfolding stage_cut_defs
  by (intro emits_intros; simp)

lemma nothing_after_version_control:
  "only_then is_git_init version_control_event (trace_of (run w) e)"
proof -
  have tail: "emits (try_except
      (bind (version_control_stage w) (\<lambda>_. completion)) failure_handler) version_control_event"
    by (intro emits_intros version_control_stage_events completion_events
        failure_handler_events)
  have "list_all version_control_event
     (case fst (before_version_control w e []) of
         Inl (Raised msg) \<Rightarrow>
           snd (failure_handler msg e ([] @ snd (before_version_control w e [])))
       | Inl Aborted \<Rightarrow> []
       | Inr x \<Rightarrow> snd (try_except (bind (version_control_stage w) (\<lambda>_. completion))
            failure_handler e ([] @ snd (before_version_control w e []))))"
    using emitsD [OF tail] emitsD [OF failure_handler_events]
    by (simp split: sum.splits failure.splits)
  then show ?thesis
    unfolding trace_of_def run_version_control snd_try_except_bind
    by (intro only_then_append emitsD [OF before_version_control_no_git])
qed

lemma setup_git_returns:
  assumes "fst (setup_git w e h) = Inr ()"
  shows "snd (setup_git w e h) =
     [TerminalOutput ''Initializing Git repository...'' ''INFO'',
      Effect GitInit None,
      Effect (WriteFile ''.gitignore'' (Text (strip gitignore))) None,
      Effect (GitIndexAdd [''.'']) None,
      Effect (GitIndexCommit ''Initial commit: Project setup'') None,
      TerminalOutput ''Git repository initialized successfully'' ''SUCCESS'']"
  using assms unfolding setup_git_def
  by (simp add: seq.simps fst_bind snd_bind fst_try_except snd_try_except return_apply
      raise_apply emit_apply emit_log_apply perform_apply
      split: option.splits sum.splits failure.splits if_splits)

lemma success_ran_version_control:
  assumes "git_integration (config w)"
    and "(True, msg) \<in> set (finished_signals (trace_of (run w) e))"
  shows "Effect GitInit None \<in> set (trace_of (run w) e)"
proof -
  from assms(2) have ok: "fst (all_stages w e []) = Inr ()"
    unfolding one_finished_signal by (simp split: sum.splits failure.splits)
  then have vc: "fst (version_control_stage w e ([] @ snd (before_version_control w e []))) = Inr ()"
    unfolding all_stages_def by (simp add: seq.simps fst_bind return_apply split: sum.splits)
  with assms(1) have "Effect GitInit None
      \<in> set (snd (version_control_stage w e ([] @ snd (before_version_control w e []))))"
    unfolding version_control_stage_def
    by (simp add: if_then_apply setup_git_returns)
  with ok show ?thesis
    unfolding run_trace_all_stages unfolding all_stages_def
    by (simp add: seq.simps snd_bind fst_bind return_apply split: sum.splits)
qed

lemma setup_git_begins:
  "\<exists>r rest. snd (setup_git w e h) =
     TerminalOutput ''Initializing Git repository...'' ''INFO'' # Effect GitInit r # rest"
  unfolding setup_git_def
  by (simp add: seq_Cons_apply snd_try_except emit_log_apply perform_apply
      split: sum.splits failure.splits)

lemma version_control_attempted:
  assumes "git_integration (config w)"
    and "fst (before_version_control w e []) = Inr ()"
  shows "\<exists>r. Effect GitInit r \<in> set (trace_of (run w) e)"
proof -
  obtain r rest where "snd (setup_git w e ([] @ snd (before_version_control w e []))) =
     TerminalOutput ''Initializing Git repository...'' ''INFO'' # Effect GitInit r # rest"
    using setup_git_begins by blast
  with assms show ?thesis
    unfolding trace_of_def run_version_control snd_try_except_bind
    by (simp add: snd_try_except snd_bind version_control_stage_def if_then_apply) blast
qed

text \<open>
  The order of the stages, read off the results \<open>run_process\<close> reports. Wherever the
  scaffold command is started in the trace of a run, the creation of the target directory
  has completed before it; wherever the base \<^verbatim>\<open>install\<close> command is started,
  \<open>run_process\<close> has returned \<open>True\<close> for the scaffold command before it; and once the
  version-control stage has begun (the repository is initialised), only events of that
  stage and the closing signals follow, so that no other stage is attempted after it. With
  \<^verbatim>\<open>git_integration\<close> set, the version-control stage is attempted whenever the stages
  before it have all returned, and a run that reports success has gone through it.
\<close>

lemma order_of_reported_stages:
  "(\<forall>pre post. trace_of (run w) e = pre @ Started (create_cmd w) # post \<longrightarrow>
      Effect (Mkdir (project_path w)) None \<in> set pre)
   \<and> (\<forall>pre post. trace_of (run w) e = pre @ Started (install_cmd w) # post \<longrightarrow>
      Process (create_cmd w) True \<in> set pre)
   \<and> (\<forall>pre r post. trace_of (run w) e = pre @ Effect GitInit r # post \<longrightarrow>
      list_all version_control_event post)
   \<and> (git_integration (config w) \<longrightarrow>
      (fst (before_version_control w e []) = Inr () \<longrightarrow>
         (\<exists>r. Effect GitInit r \<in> set (trace_of (run w) e)))
      \<and> (\<forall>msg. (True, msg) \<in> set (finished_signals (trace_of (run w) e)) \<longrightarrow>
         Effect GitInit None \<in> set (trace_of (run w) e)))"
proof (intro conjI allI impI)
  fix pre post
  assume "trace_of (run w) e = pre @ Started (create_cmd w) # post"
  from preceded_by_decompose [OF scaffold_after_init this]
  show "Effect (Mkdir (project_path w)) None \<in> set pre" by simp
next
  fix pre post
  assume "trace_of (run w) e = pre @ Started (install_cmd w) # post"
  from preceded_by_decompose [OF install_after_scaffold this]
  show "Process (create_cmd w) True \<in> set pre" by simp
next
  fix pre r post
  assume "trace_of (run w) e = pre @ Effect GitInit r # post"
  from only_then_decompose [OF nothing_after_version_control this]
  show "list_all version_control_event post" by simp
next
  assume "git_integration (config w)" and "fst (before_version_control w e []) = Inr ()"
  then show "\<exists>r. Effect GitInit r \<in> set (trace_of (run w) e)"
    by (rule version_control_attempted)
next
  fix msg
  assume "git_integration (config w)"
    and "(True, msg) \<in> set (finished_signals (trace_of (run w) e))"
  then show "Effect GitInit None \<in> set (trace_of (run w) e)"
    by (rule success_ran_version_control)
qed

text \<open>
  C2. The claim is that the stages run in the order of the specification, the base
  installation never before the scaffold invocation has succeeded. The code does not keep
  this order when the scaffolding tool takes longer than the 30 seconds \<open>run_process\<close>
  waits: with a scaffold command that exits with code 1 after 31 seconds, \<open>run_process\<close>
  returns \<open>True\<close> for it, the base \<^verbatim>\<open>install\<close> command is started after it, the
  version-control stage follows, and the only \<^verbatim>\<open>finished\<close> signal of the run reports
  success.
\<close>

theorem install_runs_after_slow_failed_scaffold:
  "(\<forall>h. fst (spawn slow_scaffold_env h (create_cmd (worker minimal_config))) =
         ExitsAfter 31000 1)
   \<and> trace_of (run (worker minimal_config)) slow_scaffold_env =
     [Progress 0 ''Initializing project...'',
      TerminalOutput ''Starting project creation...'' ''INFO'',
      Effect (Chdir (Str ''/home/u'')) None,
      Effect (Mkdir (Joined ''/home/u'' ''demo'')) None,
      Progress 20 ''Creating project structure...'',
      Started [''npx'', ''create-vite@latest'', ''demo'', ''--template'', ''react''],
      TerminalOutput ''npm ERR!'' ''INFO'',
      Process [''npx'', ''create-vite@latest'', ''demo'', ''--template'', ''react''] True,
      Effect (Chdir (Joined ''/home/u'' ''demo'')) None,
      Progress 40 ''Installing dependencies...'',
      TerminalOutput ''Installing core dependencies...'' ''INFO'',
      Started [''npm'', ''install''],
      TerminalOutput ''done'' ''INFO'',
      Process [''npm'', ''install''] True,
      Progress 60 ''Setting up project features...'',
      TerminalOutput ''Setting up None...'' ''INFO'',
      TerminalOutput ''Initializing Git repository...'' ''INFO'',
      Effect GitInit None,
      Effect (WriteFile ''.gitignore'' (Text (strip gitignore))) None,
      Effect (GitIndexAdd [''.'']) None,
      Effect (GitIndexCommit ''Initial commit: Project setup'') None,
      TerminalOutput ''Git repository initialized successfully'' ''SUCCESS'',
      Progress 100 ''Project created successfully!'',
      TerminalOutput ''Project setup completed successfully!'' ''SUCCESS'',
      Finished True ''Project created successfully!'']
   \<and> processes (trace_of (run (worker minimal_config)) slow_scaffold_env) =
       [create_cmd (worker minimal_config), install_cmd (worker minimal_config)]"
  by (simp add: eval_simps processes_def)
section \<open>The process runner\<close>

text \<open>
  C3. \<^verbatim>\<open>run_process\<close> returns \<^verbatim>\<open>process.exitCode() == 0\<close> after \<^verbatim>\<open>waitForFinished()\<close>, which
  gives up after its default of 30 seconds; until a process has finished, the exit code
  of the \<^verbatim>\<open>QProcess\<close> is the zero that \<^verbatim>\<open>start\<close> left there. A command that exits with code
  one after 31 seconds is therefore reported as a success.
\<close>

theorem run_process_reports_success_after_timeout:
  "run_process [''npm'', ''install''] slow_env [] =
     (Inr True, [Started [''npm'', ''install''], Process [''npm'', ''install''] True])"
  by (simp add: run_process_def slow_env_def process_success_simps)

section \<open>The TypeScript configuration\<close>

lemma after_install_features:
  "\<exists>k. after_install w =
     bind (emit (Progress 60 ''Setting up project features...''))
       (\<lambda>_. bind (setup_features w) k)"
  unfolding after_install_def feature_configuration_def
  by (simp add: seq.simps bind_assoc bind_return) blast

lemma reaches_features:
  assumes "Process (install_cmd w) True \<in> set (trace_of (run w) e)"
  shows "\<exists>pre post. trace_of (run w) e =
     pre @ Progress 60 ''Setting up project features...'' #
       snd (setup_features w e (pre @ [Progress 60 ''Setting up project features...''])) @ post"
proof -
  have ne: "create_cmd w \<noteq> install_cmd w"
    by (simp add: create_cmd_def install_cmd_def)
  obtain k where k: "after_install w =
     bind (emit (Progress 60 ''Setting up project features...''))
       (\<lambda>_. bind (setup_features w) k)"
    using after_install_features by blast
  define i where "i = [Progress 0 ''Initializing project...'',
            TerminalOutput ''Starting project creation...'' ''INFO'',
            Effect (Chdir (Str (project_directory w))) None,
            Effect (Mkdir (project_path w)) None]"
  show ?thesis
  proof (cases rule: init_stage_cases [of w e "[]"])
    case (chdir_raises msg)
    with assms show ?thesis by (simp add: run_simps)
  next
    case (mkdir_raises msg)
    with assms show ?thesis by (simp add: run_simps)
  next
    case completes
    then have init: "init_stage w e [] = (Inr (), i)" by (simp add: i_def)
    show ?thesis
    proof (cases rule: scaffold_stage_cases [of w e i])
      case (aborts out)
      with assms init ne show ?thesis by (auto simp add: run_simps i_def info_def)
    next
      case (fails out)
      with assms init ne show ?thesis by (auto simp add: run_simps i_def info_def)
    next
      case (succeeds out1)
      note scaffold = this
      define s where "s = [Progress 20 ''Creating project structure...'',
         Started (create_cmd w)] @ map info out1 @ [Process (create_cmd w) True]"
      show ?thesis
      proof (cases rule: install_stage_cases [of w e "i @ s"])
        case (chdir_raises msg)
        with assms init scaffold ne show ?thesis
          by (auto simp add: run_simps i_def s_def info_def)
      next
        case (aborts out2)
        with assms init scaffold ne show ?thesis
          by (auto simp add: run_simps i_def s_def info_def)
      next
        case (fails out2)
        with assms init scaffold ne show ?thesis
          by (auto simp add: run_simps i_def s_def info_def)
      next
        case (succeeds out2)
        define t where "t = [Effect (Chdir (project_path w)) None,
          Progress 40 ''Installing dependencies...'',
          TerminalOutput ''Installing core dependencies...'' ''INFO'',
          Started (install_cmd w)] @ map info out2 @ [Process (install_cmd w) True]"
        from succeeds have install: "install_stage w e (i @ s) = (Inr (), t)"
          by (simp add: t_def)
        have s': "scaffold_stage w e i = (Inr (), s)"
          using scaffold by (simp add: s_def)
        have "\<exists>post. trace_of (run w) e =
          (i @ s @ t) @ Progress 60 ''Setting up project features...'' #
            snd (setup_features w e ((i @ s @ t) @ [Progress 60 ''Setting up project features...'']))
            @ post"
          using init s' install
          by (simp add: run_simps k emit_apply split: sum.splits failure.splits)
        then show ?thesis by blast
      qed
    qed
  qed
qed

lemma setup_features_typescript:
  assumes "typescript (config w)"
  shows "\<exists>r rest. snd (setup_features w e h) =
     TerminalOutput ''Setting up TypeScript...'' ''INFO'' #
     Effect (WriteFile ''tsconfig.json'' (JsonDump ts_config)) r # rest"
  using assms unfolding setup_features_def setup_typescript_def
  by (simp add: seq.simps snd_try_except snd_bind fst_bind if_then_apply emit_log_apply
      perform_apply)

lemma run_tsconfig_content:
  "emits (run w) (\<lambda>ev. \<forall>c r. ev = Effect (WriteFile ''tsconfig.json'' c) r
      \<longrightarrow> c = JsonDump ts_config)"
  unfolding run_defs
  by (simp only: list.map prod.case) (intro emits_intros; simp)

text \<open>
  C4. With \<^verbatim>\<open>typescript\<close> set, a run that gets past the installation of the base
  dependencies writes \<^verbatim>\<open>tsconfig.json\<close>, and what it writes there is always the dump of
  \<open>ts_config\<close>, whatever the other fields of the configuration are. That object has the
  keys \<^verbatim>\<open>compilerOptions\<close>, \<^verbatim>\<open>include\<close> and \<^verbatim>\<open>references\<close>, and its compiler options hold
  \<^verbatim>\<open>"strict": true\<close> and \<^verbatim>\<open>"jsx": "react-jsx"\<close>.
\<close>

theorem typescript_compiler_config:
  assumes "typescript (config w)"
    and "Process (install_cmd w) True \<in> set (trace_of (run w) e)"
  shows "(\<exists>r. Effect (WriteFile ''tsconfig.json'' (JsonDump ts_config)) r
            \<in> set (trace_of (run w) e))
     \<and> (\<forall>c r. Effect (WriteFile ''tsconfig.json'' c) r \<in> set (trace_of (run w) e)
            \<longrightarrow> c = JsonDump ts_config)
     \<and> json_keys ts_config = [''compilerOptions'', ''include'', ''references'']
     \<and> (\<exists>opts. json_get ts_config ''compilerOptions'' = Some opts
            \<and> json_get opts ''strict'' = Some (JBool True)
            \<and> json_get opts ''jsx'' = Some (JStr ''react-jsx''))"
proof -
  from reaches_features [OF assms(2)] obtain pre post where
    tr: "trace_of (run w) e =
     pre @ Progress 60 ''Setting up project features...'' #
       snd (setup_features w e (pre @ [Progress 60 ''Setting up project features...''])) @ post"
    by blast
  from setup_features_typescript [OF assms(1)] obtain r rest where
    "snd (setup_features w e (pre @ [Progress 60 ''Setting up project features...''])) =
     TerminalOutput ''Setting up TypeScript...'' ''INFO'' #
     Effect (WriteFile ''tsconfig.json'' (JsonDump ts_config)) r # rest"
    by blast
  with tr have written: "\<exists>r. Effect (WriteFile ''tsconfig.json'' (JsonDump ts_config)) r
      \<in> set (trace_of (run w) e)"
    by auto
  have content: "\<forall>c r. Effect (WriteFile ''tsconfig.json'' c) r \<in> set (trace_of (run w) e)
      \<longrightarrow> c = JsonDump ts_config"
    using emitsD [OF run_tsconfig_content, of w e "[]"]
    by (auto simp add: trace_of_def list_all_iff)
  have keys: "json_keys ts_config = [''compilerOptions'', ''include'', ''references'']"
    by (simp add: ts_config_def)
  have opts: "\<exists>opts. json_get ts_config ''compilerOptions'' = Some opts
      \<and> json_get opts ''strict'' = Some (JBool True)
      \<and> json_get opts ''jsx'' = Some (JStr ''react-jsx'')"
    by (simp add: ts_config_def)
  from written content keys opts show ?thesis by blast
qed

lemma typescript_run_writes:
  "written (trace_of (run (worker typescript_config)) ok_env) =
     [(''tsconfig.json'', JsonDump ts_config), (''.gitignore'', Text (strip gitignore))]
   \<and> processes (trace_of (run (worker typescript_config)) ok_env) =
     [[''npx'', ''create-vite@latest'', ''demo'', ''--template'', ''react-ts''],
      [''npm'', ''install'']]"
  by (simp add: eval_simps written_def processes_def)

theorem typescript_compiler_config_witness:
  "typescript (config (worker typescript_config))
   \<and> Process (install_cmd (worker typescript_config)) True
        \<in> set (trace_of (run (worker typescript_config)) ok_env)
   \<and> (\<exists>r. Effect (WriteFile ''tsconfig.json'' (JsonDump ts_config)) r
        \<in> set (trace_of (run (worker typescript_config)) ok_env))"
proof -
  have t: "typescript (config (worker typescript_config))"
    by (simp add: concrete_defs)
  have p: "Process (install_cmd (worker typescript_config)) True
        \<in> set (trace_of (run (worker typescript_config)) ok_env)"
    by (simp add: eval_simps)
  from typescript_compiler_config [OF t p] t p show ?thesis by blast
qed

section \<open>Disabled features\<close>

lemma run_without_features:
  assumes "\<not> testing (config w)" "\<not> router (config w)" "state_management (config w) = None"
    "deployment_platform (config w) = None"
  shows "emits (run w) (\<lambda>ev. \<not> feature_event ev)"
  unfolding run_defs
  apply (simp only: list.map prod.case)
  apply (intro emits_intros)
  using assms
  apply (simp_all add: feature_paths_def feature_dirs_def feature_packages_def create_cmd_def
      install_cmd_def)
  done

lemma no_feature_writes:
  "list_all (\<lambda>ev. \<not> feature_event ev) tr \<Longrightarrow>
   list_all (\<lambda>p. p \<notin> set feature_paths) (attempted_writes tr)"
proof (induction tr)
  case Nil
  then show ?case by (simp add: attempted_writes_def)
next
  case (Cons ev tr)
  then have "list_all (\<lambda>p. p \<notin> set feature_paths) (write_path ev)"
    by (cases ev rule: write_path.cases) simp_all
  with Cons show ?case by (simp add: attempted_writes_simps)
qed

lemma no_feature_installs:
  "list_all (\<lambda>ev. \<not> feature_event ev) tr \<Longrightarrow>
   list_all (\<lambda>cmd. list_all (\<lambda>pkg. pkg \<notin> set feature_packages) (installed_packages cmd))
     (processes tr)"
proof (induction tr)
  case Nil
  then show ?case by (simp add: processes_def)
next
  case (Cons ev tr)
  then have "list_all (\<lambda>cmd. list_all (\<lambda>pkg. pkg \<notin> set feature_packages)
      (installed_packages cmd)) (process_command ev)"
    by (cases ev rule: process_command.cases) (simp_all add: list_all_iff list_ex_iff)
  with Cons show ?case by (simp add: processes_simps)
qed

lemma run_suppresses_features:
  assumes "\<not> testing (config w)" and "\<not> router (config w)"
    and "state_management (config w) = None" and "deployment_platform (config w) = None"
  shows "run w = run_with_features_suppressed w"
proof -
  have ci: "setup_ci_cd w = seq
     [emit_log ''Setting up CI/CD configuration...'' ''INFO'',
      perform (Makedirs ''.github/workflows''),
      perform (WriteFile ''.github/workflows/ci.yml'' (Text (strip workflow)))]"
    using assms(4) by (simp add: setup_ci_cd_def if_then_def seq.simps bind_return)
  show ?thesis
    unfolding run_def run_body_def run_with_features_suppressed_def ci
    using assms(1-3) by (simp add: if_then_def seq.simps bind_return)
qed

text \<open>
  C5. With \<^verbatim>\<open>testing\<close> and \<^verbatim>\<open>router\<close> off and neither a state-management library nor a
  deployment platform chosen, the stages of those four features are suppressed entirely:
  the run is the run from which the testing, router and state-management stages and the
  writing of the deployment descriptor have been taken out, so that nothing of them is
  executed, not even their opening log lines. In particular no event of the run belongs
  to those features: no file and no directory of theirs is written, and no \<^verbatim>\<open>install\<close>
  invocation names one of their packages.
\<close>

theorem disabled_features_leave_no_trace:
  assumes "\<not> testing (config w)" and "\<not> router (config w)"
    and "state_management (config w) = None" and "deployment_platform (config w) = None"
  shows "run w = run_with_features_suppressed w
     \<and> list_all (\<lambda>ev. \<not> feature_event ev) (trace_of (run w) e)
     \<and> list_all (\<lambda>p. p \<notin> set feature_paths) (attempted_writes (trace_of (run w) e))
     \<and> list_all (\<lambda>cmd. list_all (\<lambda>pkg. pkg \<notin> set feature_packages) (installed_packages cmd))
          (processes (trace_of (run w) e))"
proof -
  have "list_all (\<lambda>ev. \<not> feature_event ev) (trace_of (run w) e)"
    unfolding trace_of_def by (rule emitsD [OF run_without_features [OF assms]])
  then show ?thesis
    using no_feature_writes no_feature_installs run_suppresses_features [OF assms] by blast
qed

theorem disabled_features_leave_no_trace_witness:
  "\<not> testing (config (worker minimal_config)) \<and> \<not> router (config (worker minimal_config))
   \<and> state_management (config (worker minimal_config)) = None
   \<and> deployment_platform (config (worker minimal_config)) = None
   \<and> run (worker minimal_config) = run_with_features_suppressed (worker minimal_config)
   \<and> list_all (\<lambda>ev. \<not> feature_event ev) (trace_of (run (worker minimal_config)) ok_env)"
proof -
  have h: "\<not> testing (config (worker minimal_config))"
    "\<not> router (config (worker minimal_config))"
    "state_management (config (worker minimal_config)) = None"
    "deployment_platform (config (worker minimal_config)) = None"
    by (simp_all add: concrete_defs)
  from disabled_features_leave_no_trace [OF h, of ok_env] h show ?thesis by blast
qed
section \<open>The testing stage\<close>

lemma log_install_then_apply:
  "seq [emit_log s l, run_or_raise cmd msg, if_then b m] e h =
     (let p = spawn e (h @ [TerminalOutput s l]) cmd;
          r = handle_output (snd p);
          started = [TerminalOutput s l, Started cmd] @ map info (fst r);
          pre = started @ [Process cmd (process_success (fst p))]
      in if \<not> snd r then (Inl Aborted, started)
         else if \<not> process_success (fst p) then (Inl (Raised msg), pre)
         else if \<not> b then (Inr (), pre)
         else (fst (m e (h @ pre)), pre @ snd (m e (h @ pre))))"
  by (simp add: seq_Cons_apply seq_Nil_apply emit_log_apply run_or_raise_apply if_then_apply
      Let_def split: sum.splits)

lemma setup_testing_apply:
  "setup_testing w e h =
     (let p = spawn e (h @ [TerminalOutput ''Setting up testing configuration...'' ''INFO''])
                (testing_install_cmd w);
          r = handle_output (snd p);
          started = [TerminalOutput ''Setting up testing configuration...'' ''INFO'',
                     Started (testing_install_cmd w)] @ map info (fst r);
          pre = started @ [Process (testing_install_cmd w) (process_success (fst p))];
          files = seq
            [perform (Makedirs ''src/test''),
             perform (WriteFile ''src/test/setup.ts'' (Text (strip test_setup))),
             perform (WriteFile ''src/test/App.test.tsx'' (Text (strip example_test)))]
            e (h @ pre)
      in if \<not> snd r then (Inl Aborted, started)
         else if \<not> process_success (fst p)
         then (Inl (Raised ''Failed to install testing dependencies''), pre)
         else if test_framework (config w) \<noteq> Some ''vitest'' then (Inr (), pre)
         else (fst files, pre @ snd files))"
  unfolding setup_testing_def testing_install_cmd_def [symmetric] log_install_then_apply
  by (simp add: Let_def)

lemma testing_install_cmd_packages:
  "testing_install_cmd w =
     (if test_framework (config w) = Some ''vitest''
      then [npm_path w, ''install'', ''-D'', ''vitest'', ''@testing-library/react'',
            ''@testing-library/user-event'', ''@testing-library/jest-dom'', ''jsdom'']
      else [npm_path w, ''install'', ''-D'', ''jest'', ''@testing-library/react'',
            ''@testing-library/user-event'', ''@testing-library/jest-dom'', ''@types/jest''])"
  by (simp add: testing_install_cmd_def testing_deps_def)

lemma testing_stage_processes:
  "processes (snd (setup_testing w e h)) = [testing_install_cmd w]"
  unfolding setup_testing_apply perform3_apply
  by (simp add: Let_def processes_simps split: option.splits)

lemma testing_stage_attempts:
  assumes "Process (testing_install_cmd w) True \<in> set (snd (setup_testing w e h))"
    and "test_framework (config w) = Some ''vitest''"
  shows "\<exists>out r1 r2 r3. snd (setup_testing w e h) =
     [TerminalOutput ''Setting up testing configuration...'' ''INFO'',
      Started (testing_install_cmd w)] @ map info out @
     Process (testing_install_cmd w) True #
     Effect (Makedirs ''src/test'') r1 #
       (case r1 of Some msg \<Rightarrow> [] | None \<Rightarrow>
          Effect (WriteFile ''src/test/setup.ts'' (Text (strip test_setup))) r2 #
            (case r2 of Some msg \<Rightarrow> [] | None \<Rightarrow>
               [Effect (WriteFile ''src/test/App.test.tsx'' (Text (strip example_test))) r3]))"
proof -
  let ?log = "TerminalOutput ''Setting up testing configuration...'' ''INFO''"
  let ?p = "spawn e (h @ [?log]) (testing_install_cmd w)"
  let ?out = "fst (handle_output (snd ?p))"
  let ?pre = "[?log, Started (testing_install_cmd w)] @ map info ?out
     @ [Process (testing_install_cmd w) True]"
  let ?mk = "Makedirs ''src/test''"
  let ?w1 = "WriteFile ''src/test/setup.ts'' (Text (strip test_setup))"
  let ?w2 = "WriteFile ''src/test/App.test.tsx'' (Text (strip example_test))"
  have ok: "snd (handle_output (snd ?p)) \<and> process_success (fst ?p)"
    using assms(1) unfolding setup_testing_apply
    by (auto simp add: Let_def info_def split: if_splits)
  show ?thesis
    apply (rule exI [of _ ?out])
    apply (rule exI [of _ "raises e (h @ ?pre) ?mk"])
    apply (rule exI [of _ "raises e (h @ ?pre @ [Effect ?mk None]) ?w1"])
    apply (rule exI [of _ "raises e (h @ ?pre @ [Effect ?mk None, Effect ?w1 None]) ?w2"])
    using ok assms(2) unfolding setup_testing_apply perform3_apply
    apply (simp add: Let_def split: option.splits)
    done
qed

lemma testing_stage_written:
  assumes "fst (setup_testing w e h) = Inr ()"
  shows "written (snd (setup_testing w e h)) =
     (if test_framework (config w) = Some ''vitest''
      then [(''src/test/setup.ts'', Text (strip test_setup)),
            (''src/test/App.test.tsx'', Text (strip example_test))]
      else [])"
  using assms unfolding setup_testing_apply perform3_apply
  by (simp add: Let_def written_simps split: option.splits if_splits)

lemma testing_stage_other_framework:
  assumes "test_framework (config w) \<noteq> Some ''vitest''"
  shows "attempted_writes (snd (setup_testing w e h)) = []"
  using assms unfolding setup_testing_apply
  by (simp add: Let_def attempted_writes_simps)

text \<open>
  C6, as it fails: with \<^verbatim>\<open>testing\<close> set and \<^verbatim>\<open>test_framework\<close> \<^verbatim>\<open>jest\<close>, the run reaches the
  testing stage and the installation of the development dependencies succeeds, and yet
  the only file the run writes is the ignore list of the version-control stage.
\<close>

theorem testing_files_counterexample:
  "testing (config (worker jest_config))
   \<and> Process (testing_install_cmd (worker jest_config)) True
        \<in> set (trace_of (run (worker jest_config)) ok_env)
   \<and> attempted_writes (trace_of (run (worker jest_config)) ok_env) = [''.gitignore'']"
  by (simp add: eval_simps testing_install_cmd_def attempted_writes_def)

text \<open>
  C6, amended. The testing stage starts exactly one process: with \<^verbatim>\<open>test_framework\<close>
  \<^verbatim>\<open>vitest\<close> the package manager's \<^verbatim>\<open>install -D\<close> of \<^verbatim>\<open>vitest\<close>, \<^verbatim>\<open>@testing-library/react\<close>,
  \<^verbatim>\<open>@testing-library/user-event\<close>, \<^verbatim>\<open>@testing-library/jest-dom\<close> and \<^verbatim>\<open>jsdom\<close>, and with every
  other value its \<^verbatim>\<open>install -D\<close> of \<^verbatim>\<open>jest\<close>, \<^verbatim>\<open>@testing-library/react\<close>,
  \<^verbatim>\<open>@testing-library/user-event\<close>, \<^verbatim>\<open>@testing-library/jest-dom\<close> and \<^verbatim>\<open>@types/jest\<close>. When
  \<^verbatim>\<open>test_framework\<close> is \<^verbatim>\<open>vitest\<close> and \<open>run_process\<close> has returned \<open>True\<close> for that
  installation, the stage creates \<^verbatim>\<open>src/test\<close>, writes the setup file and then the example
  test, stopping only where the file system raises; a testing stage that returns has
  written exactly these two files. The setup file registers \<^verbatim>\<open>cleanup\<close> after each test and
  the example test expects a rendered greeting. For every other value of
  \<^verbatim>\<open>test_framework\<close> the stage writes no file.
\<close>

theorem testing_stage_files:
  "processes (snd (setup_testing w e h)) =
     [if test_framework (config w) = Some ''vitest''
      then [npm_path w, ''install'', ''-D'', ''vitest'', ''@testing-library/react'',
            ''@testing-library/user-event'', ''@testing-library/jest-dom'', ''jsdom'']
      else [npm_path w, ''install'', ''-D'', ''jest'', ''@testing-library/react'',
            ''@testing-library/user-event'', ''@testing-library/jest-dom'', ''@types/jest'']]
   \<and> (test_framework (config w) = Some ''vitest'' \<longrightarrow>
      (let cmd = [npm_path w, ''install'', ''-D'', ''vitest'', ''@testing-library/react'',
                  ''@testing-library/user-event'', ''@testing-library/jest-dom'', ''jsdom'']
       in Process cmd True \<in> set (snd (setup_testing w e h)) \<longrightarrow>
          (\<exists>out r1 r2 r3. snd (setup_testing w e h) =
             [TerminalOutput ''Setting up testing configuration...'' ''INFO'',
              Started cmd] @ map info out @
             Process cmd True #
             Effect (Makedirs ''src/test'') r1 #
               (case r1 of Some msg \<Rightarrow> [] | None \<Rightarrow>
                  Effect (WriteFile ''src/test/setup.ts'' (Text (strip test_setup))) r2 #
                    (case r2 of Some msg \<Rightarrow> [] | None \<Rightarrow>
                       [Effect (WriteFile ''src/test/App.test.tsx''
                          (Text (strip example_test))) r3])))))
   \<and> (fst (setup_testing w e h) = Inr () \<longrightarrow>
        written (snd (setup_testing w e h)) =
          (if test_framework (config w) = Some ''vitest''
           then [(''src/test/setup.ts'', Text (strip test_setup)),
                 (''src/test/App.test.tsx'', Text (strip example_test))]
           else []))
   \<and> (test_framework (config w) \<noteq> Some ''vitest'' \<longrightarrow>
        attempted_writes (snd (setup_testing w e h)) = [])
   \<and> contains (strip test_setup) (py_lines [''afterEach(() => {'', ''    cleanup()'', ''})''])
   \<and> contains (strip example_test)
        ''expect(screen.getByText(/hello/i)).toBeInTheDocument()''"
proof -
  have c1: "contains (strip test_setup)
      (py_lines [''afterEach(() => {'', ''    cleanup()'', ''})''])"
    by code_simp
  have c2: "contains (strip example_test)
      ''expect(screen.getByText(/hello/i)).toBeInTheDocument()''"
    by code_simp
  have p: "processes (snd (setup_testing w e h)) =
     [if test_framework (config w) = Some ''vitest''
      then [npm_path w, ''install'', ''-D'', ''vitest'', ''@testing-library/react'',
            ''@testing-library/user-event'', ''@testing-library/jest-dom'', ''jsdom'']
      else [npm_path w, ''install'', ''-D'', ''jest'', ''@testing-library/react'',
            ''@testing-library/user-event'', ''@testing-library/jest-dom'', ''@types/jest'']]"
    unfolding testing_stage_processes testing_install_cmd_packages by simp
  have a: "test_framework (config w) = Some ''vitest'' \<longrightarrow>
      (let cmd = [npm_path w, ''install'', ''-D'', ''vitest'', ''@testing-library/react'',
                  ''@testing-library/user-event'', ''@testing-library/jest-dom'', ''jsdom'']
       in Process cmd True \<in> set (snd (setup_testing w e h)) \<longrightarrow>
          (\<exists>out r1 r2 r3. snd (setup_testing w e h) =
             [TerminalOutput ''Setting up testing configuration...'' ''INFO'',
              Started cmd] @ map info out @
             Process cmd True #
             Effect (Makedirs ''src/test'') r1 #
               (case r1 of Some msg \<Rightarrow> [] | None \<Rightarrow>
                  Effect (WriteFile ''src/test/setup.ts'' (Text (strip test_setup))) r2 #
                    (case r2 of Some msg \<Rightarrow> [] | None \<Rightarrow>
                       [Effect (WriteFile ''src/test/App.test.tsx''
                          (Text (strip example_test))) r3]))))"
  proof
    assume v: "test_framework (config w) = Some ''vitest''"
    then have cmd: "[npm_path w, ''install'', ''-D'', ''vitest'', ''@testing-library/react'',
        ''@testing-library/user-event'', ''@testing-library/jest-dom'', ''jsdom'']
        = testing_install_cmd w"
      by (simp add: testing_install_cmd_packages)
    show "let cmd = [npm_path w, ''install'', ''-D'', ''vitest'', ''@testing-library/react'',
                  ''@testing-library/user-event'', ''@testing-library/jest-dom'', ''jsdom'']
       in Process cmd True \<in> set (snd (setup_testing w e h)) \<longrightarrow>
          (\<exists>out r1 r2 r3. snd (setup_testing w e h) =
             [TerminalOutput ''Setting up testing configuration...'' ''INFO'',
              Started cmd] @ map info out @
             Process cmd True #
             Effect (Makedirs ''src/test'') r1 #
               (case r1 of Some msg \<Rightarrow> [] | None \<Rightarrow>
                  Effect (WriteFile ''src/test/setup.ts'' (Text (strip test_setup))) r2 #
                    (case r2 of Some msg \<Rightarrow> [] | None \<Rightarrow>
                       [Effect (WriteFile ''src/test/App.test.tsx''
                          (Text (strip example_test))) r3])))"
      unfolding cmd Let_def using testing_stage_attempts [of w e h] v by blast
  qed
  from c1 c2 p a show ?thesis
    using testing_stage_written [of w e h] testing_stage_other_framework [of w e h]
    by blast
qed

lemma vitest_run:
  "written (trace_of (run (worker vitest_config)) ok_env) =
     [(''src/test/setup.ts'', Text (strip test_setup)),
      (''src/test/App.test.tsx'', Text (strip example_test)),
      (''.gitignore'', Text (strip gitignore))]"
  by (simp add: eval_simps written_def)

theorem testing_stage_files_witness:
  "test_framework (config (worker vitest_config)) = Some ''vitest''
   \<and> Process [''npm'', ''install'', ''-D'', ''vitest'', ''@testing-library/react'',
        ''@testing-library/user-event'', ''@testing-library/jest-dom'', ''jsdom''] True
     \<in> set (snd (setup_testing (worker vitest_config) ok_env []))
   \<and> fst (setup_testing (worker vitest_config) ok_env []) = Inr ()
   \<and> written (snd (setup_testing (worker vitest_config) ok_env [])) =
        [(''src/test/setup.ts'', Text (strip test_setup)),
         (''src/test/App.test.tsx'', Text (strip example_test))]
   \<and> test_framework (config (worker jest_config)) \<noteq> Some ''vitest''
   \<and> processes (snd (setup_testing (worker jest_config) ok_env [])) =
        [[''npm'', ''install'', ''-D'', ''jest'', ''@testing-library/react'',
          ''@testing-library/user-event'', ''@testing-library/jest-dom'', ''@types/jest'']]
   \<and> attempted_writes (snd (setup_testing (worker jest_config) ok_env [])) = []"
proof -
  have h1: "Process [''npm'', ''install'', ''-D'', ''vitest'', ''@testing-library/react'',
        ''@testing-library/user-event'', ''@testing-library/jest-dom'', ''jsdom''] True
     \<in> set (snd (setup_testing (worker vitest_config) ok_env []))"
    by (simp add: setup_testing_apply testing_install_cmd_packages concrete_defs)
  have h2: "test_framework (config (worker vitest_config)) = Some ''vitest''"
    by (simp add: concrete_defs)
  have h3: "fst (setup_testing (worker vitest_config) ok_env []) = Inr ()"
    by (simp add: setup_testing_apply perform3_apply concrete_defs)
  have h4: "test_framework (config (worker jest_config)) \<noteq> Some ''vitest''"
    by (simp add: concrete_defs)
  have n: "npm_path (worker jest_config) = ''npm''"
    by (simp add: concrete_defs)
  from testing_stage_files [of "worker vitest_config" ok_env "[]"]
    testing_stage_files [of "worker jest_config" ok_env "[]"] h1 h2 h3 h4 n
  show ?thesis by simp
qed
section \<open>The deployment descriptor\<close>

lemma seq_success_member:
  "fst (seq ms e h) = Inr () \<Longrightarrow> m \<in> set ms \<Longrightarrow>
   \<exists>h'. fst (m e h') = Inr () \<and> set (snd (m e h')) \<subseteq> set (snd (seq ms e h))"
proof (induction ms arbitrary: h)
  case Nil
  then show ?case by simp
next
  case (Cons a ms)
  from Cons.prems(1) have a: "fst (a e h) = Inr ()"
    and rest: "fst (seq ms e (h @ snd (a e h))) = Inr ()"
    by (auto simp add: seq_Cons_apply split: sum.splits)
  have tr: "snd (seq (a # ms) e h) = snd (a e h) @ snd (seq ms e (h @ snd (a e h)))"
    using a by (simp add: seq_Cons_apply)
  show ?case
  proof (cases "m = a")
    case True
    with a tr show ?thesis by auto
  next
    case False
    with Cons.prems(2) have "m \<in> set ms" by simp
    from Cons.IH [OF rest this] tr show ?thesis by auto
  qed
qed

lemma written_member:
  "Effect (WriteFile p c) None \<in> set tr \<Longrightarrow> (p, c) \<in> set (written tr)"
  by (induction tr) (auto simp add: written_simps)

lemma success_wrote_vercel:
  assumes "ci_cd (config w)" and "deployment_platform (config w) = Some ''Vercel''"
    and "(True, msg) \<in> set (finished_signals (trace_of (run w) e))"
  shows "(''vercel.json'', Text (strip vercel_config)) \<in> set (written (trace_of (run w) e))"
proof -
  let ?ev = "Effect (WriteFile ''vercel.json'' (Text (strip vercel_config))) None"
  from assms(3) have ok: "fst (all_stages w e []) = Inr ()"
    unfolding one_finished_signal by (simp split: sum.splits failure.splits)
  from seq_success_member [OF ok [unfolded all_stages_def], of "before_version_control w"]
  obtain h1 where b: "fst (before_version_control w e h1) = Inr ()"
    and b_sub: "set (snd (before_version_control w e h1)) \<subseteq> set (snd (all_stages w e []))"
    by (auto simp add: all_stages_def)
  from seq_success_member [OF b [unfolded before_version_control_def], of "finalize_stage w"]
  obtain h2 where f: "fst (finalize_stage w e h2) = Inr ()"
    and f_sub: "set (snd (finalize_stage w e h2)) \<subseteq> set (snd (before_version_control w e h1))"
    by (auto simp add: before_version_control_def)
  from f assms(1) have c: "fst (setup_ci_cd w e h2) = Inr ()"
    and c_eq: "snd (finalize_stage w e h2) = snd (setup_ci_cd w e h2)"
    by (simp_all add: finalize_stage_def if_then_apply)
  from seq_success_member [OF c [unfolded setup_ci_cd_def],
      of "if_then (deployment_platform (config w) = Some ''Vercel'') (setup_vercel_deployment w)"]
  obtain h3 where v: "fst (setup_vercel_deployment w e h3) = Inr ()"
    and v_sub: "set (snd (setup_vercel_deployment w e h3)) \<subseteq> set (snd (setup_ci_cd w e h2))"
    using assms(2) by (auto simp add: setup_ci_cd_def if_then_apply)
  from v have "snd (setup_vercel_deployment w e h3) = [?ev]"
    by (simp add: setup_vercel_deployment_def perform_apply split: option.splits)
  with v_sub c_eq f_sub b_sub have "?ev \<in> set (snd (all_stages w e []))"
    by auto
  then have "?ev \<in> set (trace_of (run w) e)"
    unfolding run_trace_all_stages by simp
  then show ?thesis by (rule written_member)
qed

lemma run_without_vercel:
  assumes "\<not> ci_cd (config w) \<or> deployment_platform (config w) \<noteq> Some ''Vercel''"
  shows "emits (run w) (\<lambda>ev. list_all (\<lambda>p. p \<noteq> ''vercel.json'') (write_path ev))"
  unfolding run_defs
  apply (simp only: list.map prod.case)
  apply (intro emits_intros)
  using assms
  apply simp_all
  done

text \<open>
  C7, as it fails: with Vercel chosen and \<^verbatim>\<open>ci_cd\<close> off, a run that reports success has
  written the ignore list and nothing else; there is no \<^verbatim>\<open>vercel.json\<close>.
\<close>

theorem deployment_descriptor_counterexample:
  "deployment_platform (config (worker vercel_config_without_ci)) = Some ''Vercel''
   \<and> finished_signals (trace_of (run (worker vercel_config_without_ci)) ok_env) =
        [(True, ''Project created successfully!'')]
   \<and> attempted_writes (trace_of (run (worker vercel_config_without_ci)) ok_env) =
        [''.gitignore'']"
  by (simp add: eval_simps finished_signals_def attempted_writes_def)

text \<open>
  C7, amended. The deployment descriptor is part of the CI/CD stage. With \<^verbatim>\<open>ci_cd\<close> set
  and Vercel chosen, a run that reports success has written \<^verbatim>\<open>vercel.json\<close>, which names
  \<^verbatim>\<open>dist\<close> as the build output directory and routes every path to \<^verbatim>\<open>/index.html\<close>. With
  \<^verbatim>\<open>ci_cd\<close> off, or with any other platform, no run writes \<^verbatim>\<open>vercel.json\<close>.
\<close>

theorem deployment_descriptor:
  "(ci_cd (config w) \<longrightarrow> deployment_platform (config w) = Some ''Vercel'' \<longrightarrow>
      (\<forall>msg. (True, msg) \<in> set (finished_signals (trace_of (run w) e)) \<longrightarrow>
         (''vercel.json'', Text (strip vercel_config)) \<in> set (written (trace_of (run w) e))))
   \<and> (\<not> ci_cd (config w) \<or> deployment_platform (config w) \<noteq> Some ''Vercel'' \<longrightarrow>
        ''vercel.json'' \<notin> set (attempted_writes (trace_of (run w) e)))
   \<and> contains (strip vercel_config) (''distDir'' @ [CHR 0x22] @ '': '' @ [CHR 0x22] @ ''dist'')
   \<and> contains (strip vercel_config) (''src'' @ [CHR 0x22] @ '': '' @ [CHR 0x22] @ ''/(.*)'')
   \<and> contains (strip vercel_config)
        (''dest'' @ [CHR 0x22] @ '': '' @ [CHR 0x22] @ ''/index.html'')"
proof -
  have no: "''vercel.json'' \<notin> set (attempted_writes (trace_of (run w) e))"
    if "\<not> ci_cd (config w) \<or> deployment_platform (config w) \<noteq> Some ''Vercel''"
  proof -
    have "list_all (\<lambda>p. p \<noteq> ''vercel.json'') (attempted_writes (trace_of (run w) e))"
      unfolding trace_of_def
      by (rule attempted_writes_all) (rule emitsD [OF run_without_vercel [OF that]])
    then show ?thesis by (auto simp add: list_all_iff)
  qed
  have "contains (strip vercel_config) (''distDir'' @ [CHR 0x22] @ '': '' @ [CHR 0x22] @ ''dist'')"
    by code_simp
  moreover have
    "contains (strip vercel_config) (''src'' @ [CHR 0x22] @ '': '' @ [CHR 0x22] @ ''/(.*)'')"
    by code_simp
  moreover have "contains (strip vercel_config)
      (''dest'' @ [CHR 0x22] @ '': '' @ [CHR 0x22] @ ''/index.html'')"
    by code_simp
  ultimately show ?thesis
    using success_wrote_vercel [of w _ e] no by blast
qed

theorem deployment_descriptor_witness:
  "ci_cd (config (worker vercel_config_with_ci))
   \<and> deployment_platform (config (worker vercel_config_with_ci)) = Some ''Vercel''
   \<and> (True, ''Project created successfully!'')
        \<in> set (finished_signals (trace_of (run (worker vercel_config_with_ci)) ok_env))
   \<and> (''vercel.json'', Text (strip vercel_config))
        \<in> set (written (trace_of (run (worker vercel_config_with_ci)) ok_env))
   \<and> \<not> ci_cd (config (worker vercel_config_without_ci))
   \<and> ''vercel.json''
        \<notin> set (attempted_writes (trace_of (run (worker vercel_config_without_ci)) ok_env))"
proof -
  have h1: "ci_cd (config (worker vercel_config_with_ci))"
    and h2: "deployment_platform (config (worker vercel_config_with_ci)) = Some ''Vercel''"
    and h4: "\<not> ci_cd (config (worker vercel_config_without_ci))"
    by (simp_all add: concrete_defs)
  have h3: "(True, ''Project created successfully!'')
        \<in> set (finished_signals (trace_of (run (worker vercel_config_with_ci)) ok_env))"
    by (simp add: eval_simps finished_signals_def)
  from deployment_descriptor [of "worker vercel_config_with_ci" ok_env]
    deployment_descriptor [of "worker vercel_config_without_ci" ok_env] h1 h2 h3 h4
  show ?thesis by blast
qed

section \<open>The files a run writes\<close>

lemma run_writes_known_paths:
  "emits (run w) (\<lambda>ev. list_all (\<lambda>p. p \<in> set writable_paths) (write_path ev))"
  unfolding run_defs
  by (simp only: list.map prod.case) (intro emits_intros; simp add: writable_paths_def)

text \<open>
  C8, as it fails: a successful run of the minimal configuration writes one file, the
  ignore list of the version-control stage, and no script entry of the manifest.
\<close>

theorem finalize_scripts_counterexample:
  "finished_signals (trace_of (run (worker minimal_config)) ok_env) =
     [(True, ''Project created successfully!'')]
   \<and> attempted_writes (trace_of (run (worker minimal_config)) ok_env) = [''.gitignore'']"
  by (simp add: eval_simps finished_signals_def attempted_writes_def)

text \<open>
  C8, amended. The worker has no stage that writes the manifest: every file that the
  worker itself tries to write in a run, successful or not, is one of the eighteen files
  of the feature stages, the CI and deployment descriptors and the ignore list, and
  \<^verbatim>\<open>package.json\<close> is not among them.
\<close>

theorem run_never_writes_manifest:
  "list_all (\<lambda>p. p \<in> set writable_paths) (attempted_writes (trace_of (run w) e))
   \<and> ''package.json'' \<notin> set (attempted_writes (trace_of (run w) e))"
proof -
  have all: "list_all (\<lambda>p. p \<in> set writable_paths) (attempted_writes (trace_of (run w) e))"
    unfolding trace_of_def
    by (rule attempted_writes_all) (rule emitsD [OF run_writes_known_paths])
  have "''package.json'' \<notin> set writable_paths"
    by (simp add: writable_paths_def)
  with all show ?thesis by (auto simp add: list_all_iff)
qed

theorem run_never_writes_manifest_witness:
  "list_all (\<lambda>p. p \<in> set writable_paths)
     (attempted_writes (trace_of (run (worker default_config)) ok_env))
   \<and> ''package.json'' \<notin> set (attempted_writes (trace_of (run (worker default_config)) ok_env))"
  using run_never_writes_manifest [of "worker default_config" ok_env] .

section \<open>The commit operation\<close>

lemma first_missing_none:
  "list_all (\<lambda>p. map_of ms p = None) ps \<Longrightarrow> first_missing ms ps = None"
  by (induction ps) simp_all

text \<open>
  When no call of GitPython raises (every path to be staged is in the working tree and
  the commit itself goes through), the commit operation stages the untracked files that
  are not under \<^verbatim>\<open>node_modules/\<close> and then the tracked files that differ from the index, and
  adds one commit to the history, with everything staged and with the message supplied,
  or the default message when none is; it reports success. On a path without a repository
  it leaves the file system as it is and reports failure with the message of the
  exception.
\<close>

lemma git_commit_without_exceptions:
  assumes "is_running g"
  shows "(\<forall>r. fs (repo_path g) = Inr r \<longrightarrow>
            list_all (\<lambda>p. map_of (missing r) p = None) (untracked_files r @ index_diff r) \<longrightarrow>
            commit_error r = None \<longrightarrow>
            (let new = [p \<leftarrow> untracked_files r. \<not> starts_with p ''node_modules/''];
                 changed = [p \<leftarrow> index_diff r. p \<notin> set new]
             in \<exists>r'. fst (git_commit g fs) = fs(repo_path g := Inr r')
                  \<and> commits r' = commits r @ [(commit_text g, staged r @ new @ changed)]
                  \<and> snd (git_commit g fs) =
                       [GitProgress ''Creating commit...'',
                        GitFinished True
                          (''Changes committed successfully with message: '' @ commit_text g)]))
     \<and> (\<forall>msg. fs (repo_path g) = Inl msg \<longrightarrow>
            git_commit g fs =
              (fs, [GitProgress ''Creating commit...'', GitFinished False msg]))
     \<and> (\<forall>m. commit_message g = Some m \<longrightarrow> m \<noteq> [] \<longrightarrow> commit_text g = m)
     \<and> (commit_message g = None \<or> commit_message g = Some [] \<longrightarrow>
            commit_text g = ''Initial commit: Project setup'')"
proof (intro conjI allI impI)
  fix r
  assume r: "fs (repo_path g) = Inr r"
    and m: "list_all (\<lambda>p. map_of (missing r) p = None) (untracked_files r @ index_diff r)"
    and c: "commit_error r = None"
  let ?new = "[p \<leftarrow> untracked_files r. \<not> starts_with p ''node_modules/'']"
  let ?changed = "[p \<leftarrow> index_diff r. p \<notin> set ?new]"
  from m have m1: "first_missing (missing r) ?new = None"
    by (intro first_missing_none) (simp add: list_all_iff)
  from m have m2: "first_missing (missing r) ?changed = None"
    by (intro first_missing_none) (simp add: list_all_iff)
  show "let new = ?new; changed = [p \<leftarrow> index_diff r. p \<notin> set new]
     in \<exists>r'. fst (git_commit g fs) = fs(repo_path g := Inr r')
          \<and> commits r' = commits r @ [(commit_text g, staged r @ new @ changed)]
          \<and> snd (git_commit g fs) =
               [GitProgress ''Creating commit...'',
                GitFinished True
                  (''Changes committed successfully with message: '' @ commit_text g)]"
    using assms r c m1 m2
    by (auto simp add: git_commit_def index_add_def index_commit_def Let_def)
next
  fix msg
  assume "fs (repo_path g) = Inl msg"
  with assms show "git_commit g fs =
      (fs, [GitProgress ''Creating commit...'', GitFinished False msg])"
    by (simp add: git_commit_def git_handler_def)
next
  fix m :: string
  assume "commit_message g = Some m" and "m \<noteq> []"
  then show "commit_text g = m"
    by (simp add: commit_text_def truthy_def)
next
  assume "commit_message g = None \<or> commit_message g = Some []"
  then show "commit_text g = ''Initial commit: Project setup''"
    by (auto simp add: commit_text_def truthy_def)
qed

lemma demo_commit:
  "git_commit commit_worker demo_fs =
     (demo_fs(''/home/u/demo'' := Inr \<lparr>
        untracked_files = [''node_modules/react/index.js''],
        index_diff = [],
        missing = [],
        staged = [],
        commits = [(''Initial commit: Project setup'', [''.'']),
                   (''Add the new page'', [''src/pages/New.tsx'', ''README.md'', ''src/App.tsx''])],
        commit_error = None\<rparr>),
      [GitProgress ''Creating commit...'',
       GitFinished True ''Changes committed successfully with message: Add the new page''])"
  by (simp add: git_commit_def index_add_def index_commit_def commit_text_def truthy_def
      commit_worker_def demo_fs_def demo_repo_def Let_def)

lemma lost_commit:
  "git_commit lost_worker demo_fs =
     (demo_fs, [GitProgress ''Creating commit...'', GitFinished False ''/home/u/elsewhere''])"
  by (simp add: git_commit_def git_handler_def lost_worker_def commit_worker_def demo_fs_def)

text \<open>
  C9. The claim is that the commit operation, on a directory containing a repository,
  stages the new and the modified files and produces one commit. The code does not do
  this on a repository in which a tracked file has been deleted: \<^verbatim>\<open>repo.index.diff(None)\<close>
  lists the deleted file among the changed files, \<^verbatim>\<open>repo.index.add\<close> raises for it, and
  the handler reports failure. The two new files have been staged by then, the modified
  file has not, and the history still ends with the initial commit: no commit is made.
\<close>

theorem commit_fails_on_deleted_tracked_file:
  "is_running commit_worker
   \<and> fs_with_deleted_file (repo_path commit_worker) = Inr repo_with_deleted_file
   \<and> untracked_files repo_with_deleted_file =
       [''src/pages/New.tsx'', ''README.md'', ''node_modules/react/index.js'']
   \<and> index_diff repo_with_deleted_file = [''src/App.tsx'', ''src/Old.tsx'']
   \<and> git_commit commit_worker fs_with_deleted_file =
       (fs_with_deleted_file(''/home/u/demo'' := Inr \<lparr>
          untracked_files = [''node_modules/react/index.js''],
          index_diff = [''src/App.tsx'', ''src/Old.tsx''],
          missing = [(''src/Old.tsx'', ''No such file or directory: src/Old.tsx'')],
          staged = [''src/pages/New.tsx'', ''README.md''],
          commits = [(''Initial commit: Project setup'', [''.''])],
          commit_error = None\<rparr>),
        [GitProgress ''Creating commit...'',
         GitFinished False ''No such file or directory: src/Old.tsx''])"
  by (simp add: git_commit_def git_handler_def index_add_def index_commit_def commit_text_def
      truthy_def commit_worker_def fs_with_deleted_file_def repo_with_deleted_file_def
      demo_repo_def Let_def)
section \<open>Unrecognised choices\<close>

named_theorems returns_intros

lemma returns_return [returns_intros]: "returns_normally (return ())"
  by (simp add: returns_normally_def return_apply)

lemma returns_emit [returns_intros]: "returns_normally (emit ev)"
  by (simp add: returns_normally_def emit_apply)

lemma returns_emit_log [returns_intros]: "returns_normally (emit_log s l)"
  by (simp add: returns_normally_def emit_log_apply)

lemma returns_perform [returns_intros]: "returns_normally (perform a)"
  by (simp add: returns_normally_def perform_apply benign_def)

lemma returns_run_or_raise [returns_intros]: "returns_normally (run_or_raise cmd msg)"
  by (simp add: returns_normally_def run_or_raise_apply benign_def Let_def)

lemma returns_seq_Nil [returns_intros]: "returns_normally (seq [])"
  by (simp add: returns_normally_def seq_Nil_apply)

lemma returns_seq_Cons [returns_intros]:
  "returns_normally m \<Longrightarrow> returns_normally (seq ms) \<Longrightarrow> returns_normally (seq (m # ms))"
  by (simp add: returns_normally_def seq_Cons_apply)

lemma returns_if_then [returns_intros]:
  "(b \<Longrightarrow> returns_normally m) \<Longrightarrow> returns_normally (if_then b m)"
  by (simp add: returns_normally_def if_then_apply)

lemma returns_if [returns_intros]:
  "(b \<Longrightarrow> returns_normally m) \<Longrightarrow> (\<not> b \<Longrightarrow> returns_normally n) \<Longrightarrow>
   returns_normally (if b then m else n)"
  by simp

lemma returns_try_except [returns_intros]:
  "returns_normally m \<Longrightarrow> returns_normally (try_except m handler)"
  by (simp add: returns_normally_def fst_try_except)






text \<open>
  Output that does not decode ends the run where it is read: the handler of the run is
  not reached and no \<^verbatim>\<open>finished\<close> signal is sent.
\<close>

lemma undecodable_output_aborts:
  "trace_of (run (worker minimal_config)) undecodable_env =
     [Progress 0 ''Initializing project...'',
      TerminalOutput ''Starting project creation...'' ''INFO'',
      Effect (Chdir (Str ''/home/u'')) None,
      Effect (Mkdir (Joined ''/home/u'' ''demo'')) None,
      Progress 20 ''Creating project structure...'',
      Started [''npx'', ''create-vite@latest'', ''demo'', ''--template'', ''react'']]
   \<and> fst (run (worker minimal_config) undecodable_env []) = Inl Aborted
   \<and> finished_signals (trace_of (run (worker minimal_config)) undecodable_env) = []"
  by (simp add: eval_simps finished_signals_def)



end
